theory Spec2Isabelle
  imports Complex_Main "HOL-Library.AList" "HOL-Library.Multiset"
begin

section \<open>Python values, dictionaries and the clock\<close>

text \<open>
  The code passes loosely typed dictionaries around. A value is \<open>None\<close>, an integer, a
  string or a list; a dictionary is an association list in insertion order, written with
  \<open>AList.update\<close> (Python's \<open>d[k] = v\<close>: an existing key keeps its place, a new key goes
  to the end) and read with \<open>map_of\<close>. A string is the list of its characters, and a
  slice \<open>s[:n]\<close> is \<open>take n s\<close>.
\<close>

datatype pyval = PNone | PInt int | PStr string | PList "pyval list"

type_synonym pydict = "(string \<times> pyval) list"

text \<open>Python's truth value of an object, as \<open>if x:\<close> tests it.\<close>

fun truthy :: "pyval \<Rightarrow> bool" where
  "truthy PNone = False"
| "truthy (PInt i) = (i \<noteq> 0)"
| "truthy (PStr s) = (s \<noteq> [])"
| "truthy (PList xs) = (xs \<noteq> [])"

text \<open>\<open>str(n)\<close> for an integer: decimal digits, a minus sign for a negative number.\<close>

definition digit_char :: "nat \<Rightarrow> char" where
  "digit_char d = ''0123456789'' ! d"

function str_nat :: "nat \<Rightarrow> string" where
  "str_nat n = (if n < 10 then [digit_char n] else str_nat (n div 10) @ [digit_char (n mod 10)])"
  by pat_completeness auto
termination
  by (relation "measure (\<lambda>n. n)") auto

declare str_nat.simps [simp del]

definition str_int :: "int \<Rightarrow> string" where
  "str_int i = (if i < 0 then CHR ''-'' # str_nat (nat (- i)) else str_nat (nat i))"

text \<open>
  \<open>datetime.now()\<close> reads the clock; every reading is an argument of the operation that
  takes it. \<open>strftime('%Y%m%d%H%M%S')\<close> prints the reading down to the second, each field
  padded with zeros, and drops the microseconds.
\<close>

record datetime =
  year :: nat
  month :: nat
  day :: nat
  hour :: nat
  minute :: nat
  second :: nat
  microsecond :: nat

definition zfill :: "nat \<Rightarrow> string \<Rightarrow> string" where
  "zfill w s = replicate (w - length s) (CHR ''0'') @ s"

definition strftime_YmdHMS :: "datetime \<Rightarrow> string" where
  "strftime_YmdHMS t =
     zfill 4 (str_nat (year t)) @ zfill 2 (str_nat (month t)) @ zfill 2 (str_nat (day t)) @
     zfill 2 (str_nat (hour t)) @ zfill 2 (str_nat (minute t)) @ zfill 2 (str_nat (second t))"

text \<open>Exceptions are values: the class and the message that \<open>str(e)\<close> returns.\<close>

datatype exn_class = ValueError | TypeError | AttributeError | DatabaseError | GenerationError

datatype exn = Raise exn_class string

fun str_exn :: "exn \<Rightarrow> string" where
  "str_exn (Raise c msg) = msg"

datatype log_entry = LInfo string | LError string


section \<open>ApprovalManager (human\_intervention/approval\_manager.py)\<close>

text \<open>
  An approval request is a dictionary with a fixed set of keys from \<open>request_approval\<close>;
  \<open>modified_content\<close>, \<open>content_modified\<close> and \<open>rejection_reason\<close> are keys that
  \<open>approve\<close> and \<open>reject\<close> add later, so they are optional fields here (\<open>None\<close>: the key is
  absent). The status is the string the code stores.
\<close>

record approval_request =
  id_ap :: string
  type_ap :: string
  content :: string
  metadata :: pydict
  requester_id :: int
  status :: string
  created_at :: datetime
  approved_by :: "int option"
  approved_at :: "datetime option"
  comments_ap :: "string option"
  modified_content :: "string option"
  content_modified :: "bool option"
  rejection_reason :: "string option"

record approval_manager =
  pending_approvals :: "(string \<times> approval_request) list"
  log_am :: "log_entry list"

definition approval_manager_init :: approval_manager where
  "approval_manager_init =
     \<lparr>pending_approvals = [], log_am = [LInfo ''Approval Manager initialized'']\<rparr>"

text \<open>
  \<open>request_approval\<close> reads the clock twice: \<open>now_id\<close> for the identifier and
  \<open>now_created\<close> for \<open>created_at\<close>.
\<close>

definition request_approval ::
  "approval_manager \<Rightarrow> string \<Rightarrow> string \<Rightarrow> pydict \<Rightarrow> int \<Rightarrow> datetime \<Rightarrow> datetime
     \<Rightarrow> string \<times> approval_manager" where
  "request_approval m approval_type cont meta requester now_id now_created =
     (let approval_id = approval_type @ ''_'' @ strftime_YmdHMS now_id @ ''_'' @ str_int requester;
          approval_request =
            \<lparr>id_ap = approval_id, type_ap = approval_type, content = cont, metadata = meta,
             requester_id = requester, status = ''pending'', created_at = now_created,
             approved_by = None, approved_at = None, comments_ap = None,
             modified_content = None, content_modified = None, rejection_reason = None\<rparr>
      in (approval_id,
          m\<lparr>pending_approvals := AList.update approval_id approval_request (pending_approvals m),
            log_am := log_am m @ [LInfo (''Approval requested: '' @ approval_id)]\<rparr>))"

text \<open>\<open>if modifications:\<close> holds for a string that is given and not empty.\<close>

definition approve ::
  "approval_manager \<Rightarrow> string \<Rightarrow> int \<Rightarrow> string option \<Rightarrow> string option \<Rightarrow> datetime
     \<Rightarrow> (exn + approval_request) \<times> approval_manager" where
  "approve m approval_id approver_id comments modifications now =
     (case map_of (pending_approvals m) approval_id of
        None \<Rightarrow> (Inl (Raise ValueError (''Approval request '' @ approval_id @ '' not found'')), m)
      | Some approval \<Rightarrow>
          (let a1 = approval\<lparr>status := ''approved'', approved_by := Some approver_id,
                             approved_at := Some now, comments_ap := comments\<rparr>;
               a2 = (case modifications of
                       None \<Rightarrow> a1\<lparr>content_modified := Some False\<rparr>
                     | Some mods \<Rightarrow>
                         if mods \<noteq> []
                         then a1\<lparr>modified_content := Some mods, content_modified := Some True\<rparr>
                         else a1\<lparr>content_modified := Some False\<rparr>)
           in (Inr a2,
               m\<lparr>pending_approvals := AList.update approval_id a2 (pending_approvals m),
                 log_am := log_am m @
                   [LInfo (''Approval granted: '' @ approval_id @ '' by user '' @ str_int approver_id)]\<rparr>)))"

definition reject ::
  "approval_manager \<Rightarrow> string \<Rightarrow> int \<Rightarrow> string \<Rightarrow> datetime
     \<Rightarrow> (exn + approval_request) \<times> approval_manager" where
  "reject m approval_id approver_id reason now =
     (case map_of (pending_approvals m) approval_id of
        None \<Rightarrow> (Inl (Raise ValueError (''Approval request '' @ approval_id @ '' not found'')), m)
      | Some approval \<Rightarrow>
          (let a1 = approval\<lparr>status := ''rejected'', approved_by := Some approver_id,
                             approved_at := Some now, rejection_reason := Some reason\<rparr>
           in (Inr a1,
               m\<lparr>pending_approvals := AList.update approval_id a1 (pending_approvals m),
                 log_am := log_am m @
                   [LInfo (''Approval rejected: '' @ approval_id @ '' by user '' @ str_int approver_id)]\<rparr>)))"

text \<open>
  \<open>get_pending_approvals(requester_id=None)\<close>: the filter on the requester is applied
  under \<open>if requester_id:\<close>, the truth value of the argument.
\<close>

definition get_pending_approvals :: "approval_manager \<Rightarrow> int option \<Rightarrow> approval_request list" where
  "get_pending_approvals m requester =
     (let pending = filter (\<lambda>a. status a = ''pending'') (map snd (pending_approvals m))
      in case requester of
           None \<Rightarrow> pending
         | Some r \<Rightarrow> if r \<noteq> 0 then filter (\<lambda>a. requester_id a = r) pending else pending)"

definition get_approval_status :: "approval_manager \<Rightarrow> string \<Rightarrow> string" where
  "get_approval_status m approval_id =
     (case map_of (pending_approvals m) approval_id of
        None \<Rightarrow> ''not_found''
      | Some a \<Rightarrow> status a)"


section \<open>FeedbackHandler (human\_intervention/feedback\_handler.py)\<close>

text \<open>
  A feedback record is the dictionary built by \<open>submit_feedback\<close>; \<open>addressed_at\<close> is a key
  that only \<open>mark_addressed\<close> adds.
\<close>

record feedback =
  id_fb :: string
  content_id :: string
  content_type :: string
  user_id :: int
  rating :: int
  comments_fb :: "string option"
  specific_issues :: "string list"
  submitted_at :: datetime
  addressed :: bool
  follow_up :: "string option"
  addressed_at :: "datetime option"

record feedback_handler =
  feedback_store :: "(string \<times> feedback) list"
  feedback_counter :: int
  log_fh :: "log_entry list"

definition feedback_handler_init :: feedback_handler where
  "feedback_handler_init =
     \<lparr>feedback_store = [], feedback_counter = 0,
      log_fh = [LInfo ''Feedback Handler initialized'']\<rparr>"

text \<open>
  \<open>submit_feedback\<close> increments the counter and builds the identifier before it looks at
  the rating, so the state it leaves on the error path is returned too.
\<close>

definition submit_feedback ::
  "feedback_handler \<Rightarrow> string \<Rightarrow> string \<Rightarrow> int \<Rightarrow> int \<Rightarrow> string option \<Rightarrow> string list option
     \<Rightarrow> datetime \<Rightarrow> datetime \<Rightarrow> (exn + string) \<times> feedback_handler" where
  "submit_feedback h cid ctype uid r comments issues now_id now_submitted =
     (let counter = feedback_counter h + 1;
          h1 = h\<lparr>feedback_counter := counter\<rparr>;
          feedback_id = ''feedback_'' @ str_int counter @ ''_'' @ strftime_YmdHMS now_id
      in if r < 1 \<or> r > 5
         then (Inl (Raise ValueError ''Rating must be between 1 and 5''), h1)
         else
           (let fb = \<lparr>id_fb = feedback_id, content_id = cid, content_type = ctype, user_id = uid,
                      rating = r, comments_fb = comments,
                      specific_issues = (case issues of None \<Rightarrow> [] | Some xs \<Rightarrow> xs),
                      submitted_at = now_submitted, addressed = False, follow_up = None,
                      addressed_at = None\<rparr>
            in (Inr feedback_id,
                h1\<lparr>feedback_store := AList.update feedback_id fb (feedback_store h1),
                   log_fh := log_fh h1 @
                     [LInfo (''Feedback submitted: '' @ feedback_id @ '' (Rating: '' @ str_int r @ ''/5)'')]\<rparr>)))"

definition get_feedback :: "feedback_handler \<Rightarrow> string \<Rightarrow> feedback option" where
  "get_feedback h feedback_id = map_of (feedback_store h) feedback_id"


text \<open>
  The summary dictionary. On the empty path the code returns four keys and no
  \<open>percentage_positive\<close>; the field is optional, \<open>None\<close> when the key is absent. The two
  quotients are Python floats from \<open>/\<close>; they are the exact quotients here.
\<close>

record feedback_summary =
  total_feedback :: nat
  average_rating :: real
  rating_distribution :: "(int \<times> nat) list"
  most_common_issues :: "(string \<times> nat) list"
  percentage_positive :: "real option"

text \<open>Lines 158 to 161: the records in scope; \<open>if content_type:\<close> is a truth-value test.\<close>

definition feedback_in_scope :: "feedback_handler \<Rightarrow> string option \<Rightarrow> feedback list" where
  "feedback_in_scope h ctype =
     (let feedback_list = map snd (feedback_store h)
      in case ctype of
           None \<Rightarrow> feedback_list
         | Some t \<Rightarrow> if t \<noteq> [] then filter (\<lambda>f. content_type f = t) feedback_list
                     else feedback_list)"

text \<open>The loop \<open>issue_counts[issue] = issue_counts.get(issue, 0) + 1\<close>.\<close>

fun count_issues :: "string list \<Rightarrow> (string \<times> nat) list \<Rightarrow> (string \<times> nat) list" where
  "count_issues [] issue_counts = issue_counts"
| "count_issues (issue # rest) issue_counts =
     count_issues rest
       (AList.update issue ((case map_of issue_counts issue of None \<Rightarrow> 0 | Some c \<Rightarrow> c) + 1)
          issue_counts)"

text \<open>
  \<open>sorted(items, key=lambda x: x[1], reverse=True)\<close> is a stable sort by descending
  count: \<open>sort_key\<close> on the negated count keeps equal counts in their first order.
\<close>

definition get_feedback_summary :: "feedback_handler \<Rightarrow> string option \<Rightarrow> feedback_summary" where
  "get_feedback_summary h ctype =
     (let feedback_list = feedback_in_scope h ctype
      in if feedback_list = []
         then \<lparr>total_feedback = 0, average_rating = 0, rating_distribution = [],
               most_common_issues = [], percentage_positive = None\<rparr>
         else
           (let ratings = map rating feedback_list;
                rating_dist = map (\<lambda>i. (i, count_list ratings i)) [1, 2, 3, 4, 5];
                all_issues = concat (map specific_issues feedback_list);
                issue_counts = count_issues all_issues [];
                most_common = take 5 (sort_key (\<lambda>x. - int (snd x)) issue_counts)
            in \<lparr>total_feedback = length feedback_list,
                average_rating = real_of_int (sum_list ratings) / real (length ratings),
                rating_distribution = rating_dist,
                most_common_issues = most_common,
                percentage_positive =
                  Some (if ratings \<noteq> []
                        then real (length (filter (\<lambda>r. r \<ge> 4) ratings)) / real (length ratings) * 100
                        else 0)\<rparr>))"




section \<open>Persistence (utils/database.py) and the world outside the repository\<close>

text \<open>
  A table is the list of its rows in insertion order; a row is a dictionary from column
  names to values. A column that holds \<open>NULL\<close> may be missing from the row: \<open>row_get\<close> reads
  it as \<open>None\<close>, which is what \<open>dict(row).get(column, default)\<close> returns for a column of
  the table, whatever the default.
\<close>

type_synonym row = pydict

definition row_get :: "row \<Rightarrow> string \<Rightarrow> pyval" where
  "row_get r c = (case map_of r c of None \<Rightarrow> PNone | Some v \<Rightarrow> v)"

text \<open>\<open>d.get(k, default)\<close> on a dictionary of keyword arguments.\<close>

definition dict_get :: "pydict \<Rightarrow> string \<Rightarrow> pyval \<Rightarrow> pyval" where
  "dict_get d k dflt = (case map_of d k of None \<Rightarrow> dflt | Some v \<Rightarrow> v)"

record database =
  lawyers :: "row list"
  cases :: "row list"
  legal_documents :: "row list"
  research_sessions :: "row list"
  analysis_results :: "row list"

text \<open>
  What the code calls and does not define: the SQLite engine, which may raise on any
  statement; the five agents, which send a prompt to a hosted model and return its text or
  raise; and \<open>str()\<close> of a list inside an f-string. An agent's answer may depend on how
  many calls were made before.
\<close>

datatype sql_stmt = Select string pyval | Insert string row

datatype agent_method =
  ResearchPrecedents | AnalyzeContract | AssessCompliance | DraftLegalMemo | DraftMotion
  | DraftDemandLetter | DraftContractClause | AnalyzeCaseStrategy

record env =
  sql_error :: "sql_stmt \<Rightarrow> exn option"
  agent :: "nat \<Rightarrow> agent_method \<Rightarrow> pydict \<Rightarrow> exn + string"
  str_of_list :: "pyval list \<Rightarrow> string"

text \<open>
  The state the orchestrator works on: the database, the generation calls made so far, and
  the records of the orchestrator's logger.
\<close>

record world =
  db :: database
  agent_calls :: "(agent_method \<times> pydict) list"
  log_orch :: "log_entry list"

definition info :: "string \<Rightarrow> world \<Rightarrow> world" where
  "info msg w = w\<lparr>log_orch := log_orch w @ [LInfo msg]\<rparr>"

definition call_agent :: "env \<Rightarrow> agent_method \<Rightarrow> pydict \<Rightarrow> world \<Rightarrow> (exn + string) \<times> world" where
  "call_agent e m data w =
     (agent e (length (agent_calls w)) m data, w\<lparr>agent_calls := agent_calls w @ [(m, data)]\<rparr>)"

text \<open>
  \<open>execute_query\<close> with \<open>WHERE column = ?\<close>: the rows whose column holds the bound value
  (\<open>NULL\<close> equals nothing). \<open>results[0] if results else None\<close> takes the first.
\<close>

definition select_where :: "env \<Rightarrow> string \<Rightarrow> row list \<Rightarrow> string \<Rightarrow> pyval \<Rightarrow> exn + row list" where
  "select_where e table rows column key =
     (case sql_error e (Select table key) of
        Some x \<Rightarrow> Inl x
      | None \<Rightarrow> Inr (filter (\<lambda>r. key \<noteq> PNone \<and> map_of r column = Some key) rows))"

definition first_row :: "exn + row list \<Rightarrow> exn + row option" where
  "first_row res =
     (case res of Inl x \<Rightarrow> Inl x | Inr [] \<Rightarrow> Inr None | Inr (r # rs) \<Rightarrow> Inr (Some r))"

definition get_lawyer_by_id :: "env \<Rightarrow> int \<Rightarrow> world \<Rightarrow> exn + row option" where
  "get_lawyer_by_id e lawyer_id w =
     first_row (select_where e ''lawyers'' (lawyers (db w)) ''id'' (PInt lawyer_id))"

definition get_case_by_id :: "env \<Rightarrow> pyval \<Rightarrow> world \<Rightarrow> exn + row option" where
  "get_case_by_id e case_id w =
     first_row (select_where e ''cases'' (cases (db w)) ''id'' case_id)"

definition get_document_by_id :: "env \<Rightarrow> pyval \<Rightarrow> world \<Rightarrow> exn + row option" where
  "get_document_by_id e document_id w =
     first_row (select_where e ''legal_documents'' (legal_documents (db w)) ''id'' document_id)"

text \<open>
  \<open>ORDER BY creation_date DESC\<close>: SQLite puts \<open>NULL\<close> below every number and every number
  below every text, and compares texts byte by byte; rows with equal keys stay in table
  order.
\<close>

fun str_less :: "string \<Rightarrow> string \<Rightarrow> bool" where
  "str_less [] [] = False"
| "str_less [] (d # ds) = True"
| "str_less (c # cs) [] = False"
| "str_less (c # cs) (d # ds) =
     ((of_char c :: nat) < of_char d \<or> (c = d \<and> str_less cs ds))"

fun sql_less :: "pyval \<Rightarrow> pyval \<Rightarrow> bool" where
  "sql_less PNone PNone = False"
| "sql_less PNone v = True"
| "sql_less (PInt i) (PInt j) = (i < j)"
| "sql_less (PInt i) (PStr s) = True"
| "sql_less (PStr s) (PStr t) = str_less s t"
| "sql_less u v = False"

fun insert_desc :: "string \<Rightarrow> row \<Rightarrow> row list \<Rightarrow> row list" where
  "insert_desc c x [] = [x]"
| "insert_desc c x (y # ys) =
     (if sql_less (row_get y c) (row_get x c) then x # y # ys else y # insert_desc c x ys)"

definition order_by_desc :: "string \<Rightarrow> row list \<Rightarrow> row list" where
  "order_by_desc c rows = foldl (\<lambda>sorted r. insert_desc c r sorted) [] rows"

definition get_case_documents :: "env \<Rightarrow> int \<Rightarrow> world \<Rightarrow> exn + row list" where
  "get_case_documents e case_id w =
     (case select_where e ''legal_documents'' (legal_documents (db w)) ''case_id'' (PInt case_id) of
        Inl x \<Rightarrow> Inl x
      | Inr rows \<Rightarrow> Inr (order_by_desc ''creation_date'' rows))"

text \<open>
  \<open>execute_insert\<close>: the engine raises, or the row is appended under the next identifier
  and the identifier is returned (\<open>cursor.lastrowid\<close>).
\<close>

fun row_id :: "row \<Rightarrow> int" where
  "row_id r = (case map_of r ''id'' of Some (PInt i) \<Rightarrow> i | _ \<Rightarrow> 0)"

definition next_id :: "row list \<Rightarrow> int" where
  "next_id rows = foldr (\<lambda>r m. max (row_id r) m) rows 0 + 1"

definition execute_insert :: "env \<Rightarrow> string \<Rightarrow> row \<Rightarrow> row list \<Rightarrow> exn + int \<times> row list" where
  "execute_insert e table data rows =
     (case sql_error e (Insert table data) of
        Some x \<Rightarrow> Inl x
      | None \<Rightarrow> Inr (next_id rows, rows @ [(''id'', PInt (next_id rows)) # data]))"

definition add_research_session :: "env \<Rightarrow> row \<Rightarrow> world \<Rightarrow> exn + int \<times> world" where
  "add_research_session e data w =
     (case execute_insert e ''research_sessions'' data (research_sessions (db w)) of
        Inl x \<Rightarrow> Inl x
      | Inr (i, rows) \<Rightarrow> Inr (i, w\<lparr>db := (db w)\<lparr>research_sessions := rows\<rparr>\<rparr>))"

definition save_analysis_result :: "env \<Rightarrow> row \<Rightarrow> world \<Rightarrow> exn + int \<times> world" where
  "save_analysis_result e data w =
     (case execute_insert e ''analysis_results'' data (analysis_results (db w)) of
        Inl x \<Rightarrow> Inl x
      | Inr (i, rows) \<Rightarrow> Inr (i, w\<lparr>db := (db w)\<lparr>analysis_results := rows\<rparr>\<rparr>))"

definition add_document :: "env \<Rightarrow> row \<Rightarrow> world \<Rightarrow> exn + int \<times> world" where
  "add_document e data w =
     (case execute_insert e ''legal_documents'' data (legal_documents (db w)) of
        Inl x \<Rightarrow> Inl x
      | Inr (i, rows) \<Rightarrow> Inr (i, w\<lparr>db := (db w)\<lparr>legal_documents := rows\<rparr>\<rparr>))"


section \<open>LegalOrchestrator (agents/orchestrator.py)\<close>

text \<open>
  Every operation is \<open>try: ... except Exception as e: logger.error(...); raise\<close>: whatever
  the body raises is logged under the operation's prefix and raised again.
\<close>

definition try_log :: "string \<Rightarrow> (exn + 'a) \<times> world \<Rightarrow> (exn + 'a) \<times> world" where
  "try_log prefix res =
     (case res of
        (Inl x, w) \<Rightarrow> (Inl x, w\<lparr>log_orch := log_orch w @ [LError (prefix @ str_exn x)]\<rparr>)
      | (Inr v, w) \<Rightarrow> (Inr v, w))"

definition apostrophe :: string where
  "apostrophe = [CHR 0x27]"

definition not_subscriptable :: "string \<Rightarrow> exn" where
  "not_subscriptable ty =
     Raise TypeError (apostrophe @ ty @ apostrophe @ '' object is not subscriptable'')"

definition none_has_no_get :: exn where
  "none_has_no_get =
     Raise AttributeError (apostrophe @ ''NoneType'' @ apostrophe @ '' object has no attribute ''
       @ apostrophe @ ''get'' @ apostrophe)"

text \<open>\<open>v[:n]\<close> and the text an f-string puts for a value.\<close>

fun slice_to :: "nat \<Rightarrow> pyval \<Rightarrow> exn + pyval" where
  "slice_to n PNone = Inl (not_subscriptable ''NoneType'')"
| "slice_to n (PInt i) = Inl (not_subscriptable ''int'')"
| "slice_to n (PStr s) = Inr (PStr (take n s))"
| "slice_to n (PList xs) = Inr (PList (take n xs))"

fun format_value :: "env \<Rightarrow> pyval \<Rightarrow> string" where
  "format_value e PNone = ''None''"
| "format_value e (PInt i) = str_int i"
| "format_value e (PStr s) = s"
| "format_value e (PList xs) = str_of_list e xs"

definition lawyer_not_found :: "int \<Rightarrow> exn" where
  "lawyer_not_found lawyer_id =
     Raise ValueError (''Lawyer with ID '' @ str_int lawyer_id @ '' not found'')"

definition case_not_found :: "int \<Rightarrow> exn" where
  "case_not_found case_id =
     Raise ValueError (''Case with ID '' @ str_int case_id @ '' not found'')"

text \<open>Lines 60 to 63 of \<open>research_case_law\<close>: the facts of a referenced case.\<close>

definition research_case_facts :: "env \<Rightarrow> pydict \<Rightarrow> pydict \<Rightarrow> world \<Rightarrow> exn + pydict" where
  "research_case_facts e kwargs research_data w =
     (case map_of kwargs ''case_id'' of
        None \<Rightarrow> Inr research_data
      | Some cid \<Rightarrow>
          if truthy cid
          then (case get_case_by_id e cid w of
                  Inl x \<Rightarrow> Inl x
                | Inr None \<Rightarrow> Inr research_data
                | Inr (Some c) \<Rightarrow>
                    Inr (AList.update ''current_facts'' (row_get c ''case_summary'') research_data))
          else Inr research_data)"

definition research_data_of :: "pydict \<Rightarrow> row \<Rightarrow> pydict" where
  "research_data_of kwargs lawyer =
     [(''legal_issue'', dict_get kwargs ''legal_issue'' PNone),
      (''jurisdiction'', dict_get kwargs ''jurisdiction'' (row_get lawyer ''jurisdiction'')),
      (''practice_area'', dict_get kwargs ''practice_area'' (row_get lawyer ''practice_areas'')),
      (''current_facts'', dict_get kwargs ''current_facts'' PNone),
      (''precedents'', dict_get kwargs ''precedents'' (PList []))]"

definition research_session_row :: "env \<Rightarrow> int \<Rightarrow> pydict \<Rightarrow> pydict \<Rightarrow> pyval \<Rightarrow> string \<Rightarrow> row" where
  "research_session_row e lawyer_id kwargs research_data issue result =
     [(''session_name'', PStr (''Case Law Research - '' @ format_value e issue)),
      (''lawyer_id'', PInt lawyer_id),
      (''case_id'', dict_get kwargs ''case_id'' PNone),
      (''research_query'', dict_get research_data ''legal_issue'' PNone),
      (''practice_area'', dict_get research_data ''practice_area'' PNone),
      (''jurisdiction'', dict_get research_data ''jurisdiction'' PNone),
      (''findings'', PStr (take 1000 result))]"

definition research_case_law :: "env \<Rightarrow> int \<Rightarrow> pydict \<Rightarrow> world \<Rightarrow> (exn + string) \<times> world" where
  "research_case_law e lawyer_id kwargs w0 =
     (let w = info (''Starting case law research for lawyer '' @ str_int lawyer_id) w0
      in try_log ''Case law research failed: ''
        (case get_lawyer_by_id e lawyer_id w of
           Inl x \<Rightarrow> (Inl x, w)
         | Inr None \<Rightarrow> (Inl (lawyer_not_found lawyer_id), w)
         | Inr (Some lawyer) \<Rightarrow>
             (case research_case_facts e kwargs (research_data_of kwargs lawyer) w of
                Inl x \<Rightarrow> (Inl x, w)
              | Inr research_data \<Rightarrow>
                  (case call_agent e ResearchPrecedents research_data w of
                     (Inl x, w1) \<Rightarrow> (Inl x, w1)
                   | (Inr result, w1) \<Rightarrow>
                       (case slice_to 50 (dict_get research_data ''legal_issue'' (PStr ''Unknown'')) of
                          Inl x \<Rightarrow> (Inl x, w1)
                        | Inr issue \<Rightarrow>
                            (case add_research_session e
                                    (research_session_row e lawyer_id kwargs research_data issue result)
                                    w1 of
                               Inl x \<Rightarrow> (Inl x, w1)
                             | Inr (i, w2) \<Rightarrow>
                                 (Inr result, info ''Case law research completed successfully'' w2)))))))"

text \<open>
  \<open>analyze_contract\<close> has no lookup of the lawyer. \<open>if contract_id:\<close> is a truth-value
  test; a document that is not found is \<open>None\<close>, and \<open>contract.get\<close> raises on it.
\<close>

definition analysis_row :: "string \<Rightarrow> string \<Rightarrow> pyval \<Rightarrow> int \<Rightarrow> string \<Rightarrow> row" where
  "analysis_row analysis_type entity_type entity_id lawyer_id result =
     [(''analysis_type'', PStr analysis_type),
      (''entity_type'', PStr entity_type),
      (''entity_id'', entity_id),
      (''lawyer_id'', PInt lawyer_id),
      (''result_summary'', PStr (take 500 result)),
      (''detailed_analysis'', PStr result)]"

definition contract_data_of :: "env \<Rightarrow> pyval \<Rightarrow> pydict \<Rightarrow> world \<Rightarrow> exn + pydict" where
  "contract_data_of e contract_id kwargs w =
     (if truthy contract_id
      then (case get_document_by_id e contract_id w of
              Inl x \<Rightarrow> Inl x
            | Inr None \<Rightarrow> Inl none_has_no_get
            | Inr (Some contract) \<Rightarrow>
                Inr (AList.update ''contract_type'' (row_get contract ''document_type'')
                      (AList.update ''contract_text'' (row_get contract ''document_content'')
                        (AList.update ''contract_name'' (row_get contract ''title'') kwargs))))
      else Inr kwargs)"

definition analyze_contract :: "env \<Rightarrow> int \<Rightarrow> pyval \<Rightarrow> pydict \<Rightarrow> world \<Rightarrow> (exn + string) \<times> world" where
  "analyze_contract e lawyer_id contract_id kwargs w0 =
     (let w = info (''Analyzing contract for lawyer '' @ str_int lawyer_id) w0
      in try_log ''Contract analysis failed: ''
        (case contract_data_of e contract_id kwargs w of
           Inl x \<Rightarrow> (Inl x, w)
         | Inr contract_data \<Rightarrow>
             (case call_agent e AnalyzeContract contract_data w of
                (Inl x, w1) \<Rightarrow> (Inl x, w1)
              | (Inr result, w1) \<Rightarrow>
                  (case save_analysis_result e
                          (analysis_row ''contract_analysis'' ''contract''
                             (if truthy contract_id then contract_id else PInt 0) lawyer_id result) w1 of
                     Inl x \<Rightarrow> (Inl x, w1)
                   | Inr (i, w2) \<Rightarrow>
                       (Inr result, info ''Contract analysis completed successfully'' w2)))))"

definition compliance_data_of :: "pydict \<Rightarrow> row \<Rightarrow> pydict" where
  "compliance_data_of kwargs lawyer =
     [(''organization'', dict_get kwargs ''organization'' (row_get lawyer ''firm'')),
      (''industry'', dict_get kwargs ''industry'' PNone),
      (''jurisdictions'', dict_get kwargs ''jurisdictions'' (PList [row_get lawyer ''jurisdiction''])),
      (''frameworks'', dict_get kwargs ''frameworks'' (PList [])),
      (''current_practices'', dict_get kwargs ''current_practices'' PNone),
      (''scope'', dict_get kwargs ''scope'' (PList []))]"

definition assess_compliance :: "env \<Rightarrow> int \<Rightarrow> pydict \<Rightarrow> world \<Rightarrow> (exn + string) \<times> world" where
  "assess_compliance e lawyer_id kwargs w0 =
     (let w = info (''Assessing compliance for lawyer '' @ str_int lawyer_id) w0
      in try_log ''Compliance assessment failed: ''
        (case get_lawyer_by_id e lawyer_id w of
           Inl x \<Rightarrow> (Inl x, w)
         | Inr None \<Rightarrow> (Inl (lawyer_not_found lawyer_id), w)
         | Inr (Some lawyer) \<Rightarrow>
             (case call_agent e AssessCompliance (compliance_data_of kwargs lawyer) w of
                (Inl x, w1) \<Rightarrow> (Inl x, w1)
              | (Inr result, w1) \<Rightarrow>
                  (case save_analysis_result e
                          (analysis_row ''compliance_assessment'' ''organization'' (PInt 0)
                             lawyer_id result) w1 of
                     Inl x \<Rightarrow> (Inl x, w1)
                   | Inr (i, w2) \<Rightarrow>
                       (Inr result, info ''Compliance assessment completed successfully'' w2)))))"

text \<open>
  \<open>draft_legal_document\<close> has no lookup of the lawyer either. \<open>str.title()\<close> is written for
  ASCII letters, which is all the four accepted document types contain; the clock is read
  once, for \<open>creation_date\<close>.
\<close>

definition is_ascii_lower :: "char \<Rightarrow> bool" where
  "is_ascii_lower c \<longleftrightarrow> (97::nat) \<le> of_char c \<and> (of_char c :: nat) \<le> 122"

definition is_ascii_upper :: "char \<Rightarrow> bool" where
  "is_ascii_upper c \<longleftrightarrow> (65::nat) \<le> of_char c \<and> (of_char c :: nat) \<le> 90"

definition to_upper :: "char \<Rightarrow> char" where
  "to_upper c = (if is_ascii_lower c then char_of ((of_char c :: nat) - 32) else c)"

definition to_lower :: "char \<Rightarrow> char" where
  "to_lower c = (if is_ascii_upper c then char_of ((of_char c :: nat) + 32) else c)"

fun title_from :: "bool \<Rightarrow> string \<Rightarrow> string" where
  "title_from prev_cased [] = []"
| "title_from prev_cased (c # cs) =
     (if is_ascii_lower c \<or> is_ascii_upper c
      then (if prev_cased then to_lower c else to_upper c) # title_from True cs
      else c # title_from False cs)"

definition py_title :: "string \<Rightarrow> string" where
  "py_title s = title_from False s"

definition strftime_Y_m_d :: "datetime \<Rightarrow> string" where
  "strftime_Y_m_d t =
     zfill 4 (str_nat (year t)) @ ''-'' @ zfill 2 (str_nat (month t)) @ ''-'' @ zfill 2 (str_nat (day t))"

definition drafting_method :: "string \<Rightarrow> agent_method option" where
  "drafting_method document_type =
     (if document_type = ''memo'' then Some DraftLegalMemo
      else if document_type = ''motion'' then Some DraftMotion
      else if document_type = ''demand_letter'' then Some DraftDemandLetter
      else if document_type = ''contract_clause'' then Some DraftContractClause
      else None)"

definition document_row :: "int \<Rightarrow> string \<Rightarrow> pydict \<Rightarrow> datetime \<Rightarrow> string \<Rightarrow> row" where
  "document_row lawyer_id document_type kwargs now result =
     [(''document_type'', PStr document_type),
      (''title'', dict_get kwargs ''title'' (PStr (py_title document_type @ '' Draft''))),
      (''case_id'', dict_get kwargs ''case_id'' PNone),
      (''lawyer_id'', PInt lawyer_id),
      (''document_content'', PStr result),
      (''status'', PStr ''draft''),
      (''creation_date'', PStr (strftime_Y_m_d now))]"

definition draft_legal_document ::
  "env \<Rightarrow> int \<Rightarrow> string \<Rightarrow> pydict \<Rightarrow> datetime \<Rightarrow> world \<Rightarrow> (exn + string) \<times> world" where
  "draft_legal_document e lawyer_id document_type kwargs now w0 =
     (let w = info (''Drafting '' @ document_type @ '' for lawyer '' @ str_int lawyer_id) w0
      in try_log ''Document drafting failed: ''
        (case drafting_method document_type of
           None \<Rightarrow> (Inl (Raise ValueError (''Unsupported document type: '' @ document_type)), w)
         | Some m \<Rightarrow>
             (case call_agent e m kwargs w of
                (Inl x, w1) \<Rightarrow> (Inl x, w1)
              | (Inr result, w1) \<Rightarrow>
                  (case add_document e (document_row lawyer_id document_type kwargs now result) w1 of
                     Inl x \<Rightarrow> (Inl x, w1)
                   | Inr (doc_id, w2) \<Rightarrow>
                       (Inr result,
                        info (''Document drafting completed successfully (ID: '' @ str_int doc_id @ '')'')
                          w2)))))"

text \<open>
  \<open>develop_litigation_strategy\<close> looks the case up first and the lawyer second. The
  dictionary ends with \<open>**kwargs\<close>: every keyword argument is written over it in order.
\<close>

definition case_data_of :: "pydict \<Rightarrow> row \<Rightarrow> pydict" where
  "case_data_of kwargs c =
     foldl (\<lambda>d kv. AList.update (fst kv) (snd kv) d)
       [(''case_name'', row_get c ''title''),
        (''case_type'', row_get c ''case_type''),
        (''client_position'', dict_get kwargs ''client_position'' (PStr ''plaintiff'')),
        (''case_stage'', row_get c ''status''),
        (''facts'', row_get c ''case_summary''),
        (''legal_issues'', row_get c ''key_issues''),
        (''client_info'', dict_get kwargs ''client_info'' (row_get c ''client_name'')),
        (''objectives'', dict_get kwargs ''objectives'' PNone)]
       kwargs"

definition develop_litigation_strategy ::
  "env \<Rightarrow> int \<Rightarrow> int \<Rightarrow> pydict \<Rightarrow> world \<Rightarrow> (exn + string) \<times> world" where
  "develop_litigation_strategy e lawyer_id case_id kwargs w0 =
     (let w = info (''Developing litigation strategy for case '' @ str_int case_id) w0
      in try_log ''Litigation strategy development failed: ''
        (case get_case_by_id e (PInt case_id) w of
           Inl x \<Rightarrow> (Inl x, w)
         | Inr None \<Rightarrow> (Inl (case_not_found case_id), w)
         | Inr (Some c) \<Rightarrow>
             (case get_lawyer_by_id e lawyer_id w of
                Inl x \<Rightarrow> (Inl x, w)
              | Inr None \<Rightarrow> (Inl (lawyer_not_found lawyer_id), w)
              | Inr (Some lawyer) \<Rightarrow>
                  (case call_agent e AnalyzeCaseStrategy (case_data_of kwargs c) w of
                     (Inl x, w1) \<Rightarrow> (Inl x, w1)
                   | (Inr result, w1) \<Rightarrow>
                       (case save_analysis_result e
                               (analysis_row ''litigation_strategy'' ''case'' (PInt case_id)
                                  lawyer_id result) w1 of
                          Inl x \<Rightarrow> (Inl x, w1)
                        | Inr (i, w2) \<Rightarrow>
                            (Inr result, info ''Litigation strategy completed successfully'' w2))))))"

text \<open>
  \<open>comprehensive_case_analysis\<close>. The loop of lines 312 to 318 runs over
  \<open>documents[:3]\<close> and tests the type of each of these documents inside.
\<close>

definition research_kwargs_of :: "int \<Rightarrow> row \<Rightarrow> pydict" where
  "research_kwargs_of case_id c =
     [(''case_id'', PInt case_id),
      (''legal_issue'', row_get c ''key_issues''),
      (''practice_area'', row_get c ''practice_area'')]"

record comprehensive_results =
  case_law_research :: string
  litigation_strategy :: string
  document_analyses :: "string list option"

definition is_contract_document :: "row \<Rightarrow> bool" where
  "is_contract_document doc \<longleftrightarrow>
     row_get doc ''document_type'' = PStr ''contract'' \<or> row_get doc ''document_type'' = PStr ''agreement''"

fun analyze_documents ::
  "env \<Rightarrow> int \<Rightarrow> row list \<Rightarrow> string list \<Rightarrow> world \<Rightarrow> (exn + string list) \<times> world" where
  "analyze_documents e lawyer_id [] analyses w = (Inr analyses, w)"
| "analyze_documents e lawyer_id (doc # docs) analyses w =
     (if is_contract_document doc
      then (case analyze_contract e lawyer_id (row_get doc ''id'') [] w of
              (Inl x, w1) \<Rightarrow> (Inl x, w1)
            | (Inr analysis, w1) \<Rightarrow> analyze_documents e lawyer_id docs (analyses @ [analysis]) w1)
      else analyze_documents e lawyer_id docs analyses w)"

definition comprehensive_case_analysis ::
  "env \<Rightarrow> int \<Rightarrow> int \<Rightarrow> world \<Rightarrow> (exn + comprehensive_results) \<times> world" where
  "comprehensive_case_analysis e lawyer_id case_id w0 =
     (let w = info (''Starting comprehensive analysis for case '' @ str_int case_id) w0
      in try_log ''Comprehensive analysis failed: ''
        (case get_case_by_id e (PInt case_id) w of
           Inl x \<Rightarrow> (Inl x, w)
         | Inr case_opt \<Rightarrow>
             (let wa = info ''Running case law research...'' w
              in case case_opt of
                   None \<Rightarrow> (Inl none_has_no_get, wa)
                 | Some c \<Rightarrow>
                     (case research_case_law e lawyer_id (research_kwargs_of case_id c) wa of
                        (Inl x, w1) \<Rightarrow> (Inl x, w1)
                      | (Inr research, w1) \<Rightarrow>
                          (case develop_litigation_strategy e lawyer_id case_id []
                                  (info ''Developing litigation strategy...'' w1) of
                             (Inl x, w2) \<Rightarrow> (Inl x, w2)
                           | (Inr strategy, w2) \<Rightarrow>
                               (case get_case_documents e case_id w2 of
                                  Inl x \<Rightarrow> (Inl x, w2)
                                | Inr documents \<Rightarrow>
                                    if documents \<noteq> []
                                    then (case analyze_documents e lawyer_id (take 3 documents) []
                                                 (info ''Analyzing case documents...'' w2) of
                                            (Inl x, w3) \<Rightarrow> (Inl x, w3)
                                          | (Inr analyses, w3) \<Rightarrow>
                                              (Inr \<lparr>case_law_research = research,
                                                    litigation_strategy = strategy,
                                                    document_analyses = Some analyses\<rparr>,
                                               info ''Comprehensive analysis completed successfully'' w3))
                                    else (Inr \<lparr>case_law_research = research,
                                               litigation_strategy = strategy,
                                               document_analyses = None\<rparr>,
                                          info ''Comprehensive analysis completed successfully'' w2)))))))"


text \<open>
  Two conditions on a run, for the statements below: between two states exactly one
  generation call was made, of method \<open>m\<close> with the data \<open>d\<close>, and it returned \<open>answer\<close>;
  and the insert of a given row into a table raises \<open>x\<close>.
\<close>

definition generated_by ::
  "env \<Rightarrow> world \<Rightarrow> world \<Rightarrow> agent_method \<Rightarrow> pydict \<Rightarrow> string \<Rightarrow> bool" where
  "generated_by e w w' m d answer \<longleftrightarrow>
     agent_calls w' = agent_calls w @ [(m, d)] \<and> agent e (length (agent_calls w)) m d = Inr answer"

definition write_raises :: "env \<Rightarrow> string \<Rightarrow> row \<Rightarrow> exn \<Rightarrow> bool" where
  "write_raises e table data x \<longleftrightarrow> sql_error e (Insert table data) = Some x"

text \<open>
  A generation call analyses a document when it is a call of the contract agent with the
  data that \<open>analyze_contract\<close> builds for the document's identifier.
\<close>

definition analyzes :: "env \<Rightarrow> world \<Rightarrow> agent_method \<times> pydict \<Rightarrow> row \<Rightarrow> bool" where
  "analyzes e w call doc \<longleftrightarrow>
     fst call = AnalyzeContract \<and> contract_data_of e (row_get doc ''id'') [] w = Inr (snd call)"

text \<open>
  The documents of a case as \<open>get_case_documents\<close> returns them (none when the query
  raises); the calls of the contract agent made between two states; and a list of rows
  in which no row has a smaller value of a column than a row after it.
\<close>

definition documents_of :: "env \<Rightarrow> int \<Rightarrow> world \<Rightarrow> row list" where
  "documents_of e case_id w =
     (case get_case_documents e case_id w of Inl x \<Rightarrow> [] | Inr docs \<Rightarrow> docs)"

definition contract_calls :: "world \<Rightarrow> world \<Rightarrow> (agent_method \<times> pydict) list" where
  "contract_calls w w' =
     filter (\<lambda>call. fst call = AnalyzeContract) (drop (length (agent_calls w)) (agent_calls w'))"

definition descending :: "string \<Rightarrow> row list \<Rightarrow> bool" where
  "descending c rows \<longleftrightarrow> sorted_wrt (\<lambda>a b. \<not> sql_less (row_get a c) (row_get b c)) rows"

section \<open>Example inputs\<close>

text \<open>Two clock readings within one second, and a later one.\<close>

definition clock_a :: datetime where
  "clock_a = \<lparr>year = 2024, month = 1, day = 2, hour = 3, minute = 4, second = 5, microsecond = 100\<rparr>"

definition clock_b :: datetime where
  "clock_b = \<lparr>year = 2024, month = 1, day = 2, hour = 3, minute = 4, second = 5, microsecond = 900\<rparr>"

definition clock_c :: datetime where
  "clock_c = \<lparr>year = 2024, month = 1, day = 2, hour = 3, minute = 4, second = 6, microsecond = 0\<rparr>"

text \<open>A manager with one request, rejected; then the same request approved afterwards.\<close>

definition example_am_rejected :: approval_manager where
  "example_am_rejected =
     snd (reject
            (snd (request_approval approval_manager_init ''document'' ''draft text'' [] 7 clock_a clock_a))
            ''document_20240102030405_7'' 9 ''needs work'' clock_b)"

definition example_am_reapproved :: approval_manager where
  "example_am_reapproved =
     snd (approve example_am_rejected ''document_20240102030405_7'' 8 (Some ''fine'') None clock_c)"

text \<open>Two requests of one type by one requester within one second.\<close>

definition example_first_request :: "string \<times> approval_manager" where
  "example_first_request =
     request_approval approval_manager_init ''document'' ''first draft'' [] 7 clock_a clock_a"

definition example_second_request :: "string \<times> approval_manager" where
  "example_second_request =
     request_approval (snd example_first_request) ''document'' ''second draft'' [] 7 clock_b clock_b"

text \<open>A manager with one pending request, by requester 5.\<close>

definition example_am_pending :: approval_manager where
  "example_am_pending =
     snd (request_approval approval_manager_init ''strategy'' ''plan'' [] 5 clock_a clock_a)"

text \<open>A handler with one record, and one with the ratings 5, 5, 4, 2, 1.\<close>

definition example_fh_one :: feedback_handler where
  "example_fh_one =
     snd (submit_feedback feedback_handler_init ''doc1'' ''contract_analysis'' 3 4 None None
            clock_a clock_a)"

definition submit_rating :: "int \<Rightarrow> feedback_handler \<Rightarrow> feedback_handler" where
  "submit_rating r h =
     snd (submit_feedback h ''doc1'' ''contract_analysis'' 3 r None None clock_a clock_a)"

definition example_fh_five :: feedback_handler where
  "example_fh_five =
     submit_rating 1 (submit_rating 2 (submit_rating 4 (submit_rating 5 (submit_rating 5
       feedback_handler_init))))"

text \<open>
  A database with one lawyer, one case and seven documents of the case, three memos and
  then four contracts, each a day older than the one before; an engine that never raises
  and one that is locked for writing; agents that return a fixed text.
\<close>

definition example_document :: "int \<Rightarrow> string \<Rightarrow> string \<Rightarrow> row" where
  "example_document i ty date =
     [(''id'', PInt i), (''document_type'', PStr ty), (''title'', PStr ''Exhibit''),
      (''case_id'', PInt 1), (''lawyer_id'', PInt 1), (''document_content'', PStr ''text of the exhibit''),
      (''creation_date'', PStr date)]"

definition example_documents :: "row list" where
  "example_documents =
     [example_document 1 ''memo'' ''2024-03-07'',
      example_document 2 ''memo'' ''2024-03-06'',
      example_document 3 ''memo'' ''2024-03-05'',
      example_document 4 ''contract'' ''2024-03-04'',
      example_document 5 ''contract'' ''2024-03-03'',
      example_document 6 ''agreement'' ''2024-03-02'',
      example_document 7 ''contract'' ''2024-03-01'']"

definition example_db :: database where
  "example_db =
     \<lparr>lawyers = [[(''id'', PInt 1), (''name'', PStr ''Ada Doe''), (''firm'', PStr ''Doe LLP''),
                  (''practice_areas'', PStr ''Corporate Law''), (''jurisdiction'', PStr ''Federal'')]],
      cases = [[(''id'', PInt 1), (''title'', PStr ''Acme v. Beta''), (''case_type'', PStr ''Civil''),
                (''practice_area'', PStr ''Corporate Law''), (''status'', PStr ''active''),
                (''lawyer_id'', PInt 1), (''client_name'', PStr ''Acme''),
                (''case_summary'', PStr ''Supply dispute''), (''key_issues'', PStr ''breach of contract'')]],
      legal_documents = example_documents,
      research_sessions = [],
      analysis_results = []\<rparr>"

definition example_world :: world where
  "example_world = \<lparr>db = example_db, agent_calls = [], log_orch = []\<rparr>"

definition env_ok :: env where
  "env_ok = \<lparr>sql_error = (\<lambda>s. None), agent = (\<lambda>n m d. Inr ''generated text''),
             str_of_list = (\<lambda>xs. ''[...]'')\<rparr>"

definition env_locked :: env where
  "env_locked =
     \<lparr>sql_error = (\<lambda>s. case s of Select t k \<Rightarrow> None
                           | Insert t r \<Rightarrow> Some (Raise DatabaseError ''database is locked'')),
      agent = (\<lambda>n m d. Inr ''generated text''),
      str_of_list = (\<lambda>xs. ''[...]'')\<rparr>"

text \<open>
  The same database with five documents stored oldest first: the contract Lease, a memo,
  the agreement Settlement, the contract Supply and a memo. And an engine that enforces
  the foreign key on \<open>lawyer_id\<close> for the lawyer 99, whom the database does not know.
\<close>

definition titled_document :: "int \<Rightarrow> string \<Rightarrow> string \<Rightarrow> string \<Rightarrow> row" where
  "titled_document i ty title date =
     [(''id'', PInt i), (''document_type'', PStr ty), (''title'', PStr title),
      (''case_id'', PInt 1), (''lawyer_id'', PInt 1), (''document_content'', PStr ''text of the exhibit''),
      (''creation_date'', PStr date)]"

definition example_documents_2 :: "row list" where
  "example_documents_2 =
     [titled_document 1 ''contract'' ''Lease'' ''2024-03-01'',
      titled_document 2 ''memo'' ''Note'' ''2024-03-02'',
      titled_document 3 ''agreement'' ''Settlement'' ''2024-03-03'',
      titled_document 4 ''contract'' ''Supply'' ''2024-03-04'',
      titled_document 5 ''memo'' ''Summary'' ''2024-03-05'']"

definition example_world_2 :: world where
  "example_world_2 =
     \<lparr>db = example_db\<lparr>legal_documents := example_documents_2\<rparr>, agent_calls = [], log_orch = []\<rparr>"

definition env_fk :: env where
  "env_fk =
     \<lparr>sql_error = (\<lambda>s. case s of Select t k \<Rightarrow> None
                           | Insert t r \<Rightarrow>
                               if map_of r ''lawyer_id'' = Some (PInt 99)
                               then Some (Raise DatabaseError ''FOREIGN KEY constraint failed'')
                               else None),
      agent = (\<lambda>n m d. Inr ''generated text''),
      str_of_list = (\<lambda>xs. ''[...]'')\<rparr>"

text \<open>
  The engine and the agents of \<open>env_ok\<close>, except that the third generation call made
  raises.
\<close>

definition env_outage :: env where
  "env_outage =
     \<lparr>sql_error = (\<lambda>s. None),
      agent = (\<lambda>n m d. if n = 2 then Inl (Raise GenerationError ''model unavailable'')
                       else Inr ''generated text''),
      str_of_list = (\<lambda>xs. ''[...]'')\<rparr>"


section \<open>Decimal printing\<close>





lemma str_nat_small: "n < 10 \<Longrightarrow> str_nat n = [digit_char n]"
  by (subst str_nat.simps) simp

lemma str_nat_big: "\<not> n < 10 \<Longrightarrow> str_nat n = str_nat (n div 10) @ [digit_char (n mod 10)]"
  by (subst str_nat.simps) simp





section \<open>Feedback identifiers\<close>










section \<open>Evaluating the examples\<close>

lemma str_nat_2024: "str_nat 2024 = ''2024''"
  by (simp add: str_nat_big str_nat_small digit_char_def)

lemma strftime_clock_a: "strftime_YmdHMS clock_a = ''20240102030405''"
  by (simp add: strftime_YmdHMS_def clock_a_def zfill_def str_nat_small digit_char_def str_nat_2024)

lemma strftime_clock_b: "strftime_YmdHMS clock_b = ''20240102030405''"
  by (simp add: strftime_YmdHMS_def clock_b_def zfill_def str_nat_small digit_char_def str_nat_2024)

lemma strftime_clock_c: "strftime_YmdHMS clock_c = ''20240102030406''"
  by (simp add: strftime_YmdHMS_def clock_c_def zfill_def str_nat_small digit_char_def str_nat_2024)

lemma str_int_small: "str_int 5 = ''5''" "str_int 7 = ''7''" "str_int 8 = ''8''" "str_int 9 = ''9''"
   "str_int 1 = ''1''" "str_int 2 = ''2''" "str_int 3 = ''3''" "str_int 4 = ''4''"
  by (simp_all add: str_int_def str_nat_small digit_char_def)

lemmas example_eval = strftime_clock_a strftime_clock_b strftime_clock_c str_int_small Let_def
  approval_manager_init_def feedback_handler_init_def

lemma example_fh_five_ratings:
  "map rating (feedback_in_scope example_fh_five None) = [5, 5, 4, 2, 1]"
  by (simp add: feedback_in_scope_def example_fh_five_def submit_rating_def submit_feedback_def example_eval)


section \<open>Feedback summary\<close>

text \<open>
  C5. On an empty handler, and on a handler whose records the filter excludes, the summary
  has \<open>total_feedback = 0\<close>, \<open>average_rating = 0\<close> and empty collections, and no division
  takes place; the dictionary of this path has no \<open>percentage_positive\<close> key at all, where
  the other path computes one and carries an \<open>else 0\<close> for empty ratings.
\<close>

theorem get_feedback_summary_empty:
  "get_feedback_summary feedback_handler_init None
     = \<lparr>total_feedback = 0, average_rating = 0, rating_distribution = [],
        most_common_issues = [], percentage_positive = None\<rparr>
   \<and> get_feedback_summary example_fh_one (Some ''memo'')
     = \<lparr>total_feedback = 0, average_rating = 0, rating_distribution = [],
        most_common_issues = [], percentage_positive = None\<rparr>"
  by (simp add: get_feedback_summary_def feedback_in_scope_def example_fh_one_def submit_feedback_def example_eval)

text \<open>
  C7, as stated, fails: of the ratings 5, 5, 4, 2, 1 three are at least 4, so the code
  returns \<open>percentage_positive = 60\<close>, not 40.
\<close>

theorem percentage_positive_counterexample:
  "map rating (feedback_in_scope example_fh_five None) = [5, 5, 4, 2, 1]
   \<and> percentage_positive (get_feedback_summary example_fh_five None) = Some 60
   \<and> percentage_positive (get_feedback_summary example_fh_five None) \<noteq> Some 40"
proof -
  have ne: "feedback_in_scope example_fh_five None \<noteq> []"
    using example_fh_five_ratings by auto
  show ?thesis
    using ne example_fh_five_ratings by (simp add: get_feedback_summary_def Let_def)
qed

text \<open>
  C7, amended. Over records in scope with the ratings 5, 5, 4, 2, 1 the summary has
  \<open>total_feedback = 5\<close>, \<open>average_rating = 17 / 5 = 3.4\<close>, \<open>percentage_positive = 60\<close>
  (three of the five ratings are at least 4) and the distribution 1:1, 2:1, 3:0, 4:1, 5:2.
\<close>

theorem get_feedback_summary_example:
  assumes "map rating (feedback_in_scope h ctype) = [5, 5, 4, 2, 1]"
  shows "total_feedback (get_feedback_summary h ctype) = 5
       \<and> average_rating (get_feedback_summary h ctype) = 17 / 5
       \<and> average_rating (get_feedback_summary h ctype) = 3.4
       \<and> percentage_positive (get_feedback_summary h ctype) = Some 60
       \<and> rating_distribution (get_feedback_summary h ctype) = [(1, 1), (2, 1), (3, 0), (4, 1), (5, 2)]"
proof -
  from assms have ne: "feedback_in_scope h ctype \<noteq> []" by auto
  from assms have "length (map rating (feedback_in_scope h ctype)) = 5" by simp
  then have len: "length (feedback_in_scope h ctype) = 5" by simp
  show ?thesis using ne len assms
    by (simp add: get_feedback_summary_def Let_def)
qed

theorem get_feedback_summary_example_witness:
  "map rating (feedback_in_scope example_fh_five None) = [5, 5, 4, 2, 1]
   \<and> total_feedback (get_feedback_summary example_fh_five None) = 5
   \<and> average_rating (get_feedback_summary example_fh_five None) = 3.4
   \<and> percentage_positive (get_feedback_summary example_fh_five None) = Some 60
   \<and> rating_distribution (get_feedback_summary example_fh_five None)
       = [(1, 1), (2, 1), (3, 0), (4, 1), (5, 2)]"
proof -
  have h: "map rating (feedback_in_scope example_fh_five None) = [5, 5, 4, 2, 1]"
    by (rule example_fh_five_ratings)
  show ?thesis
    using h get_feedback_summary_example [OF h] by simp
qed


section \<open>Approval requests\<close>

lemma get_pending_approvals_filter:
  "get_pending_approvals m None = filter (\<lambda>a. status a = ''pending'') (map snd (pending_approvals m))"
  "r \<noteq> 0 \<Longrightarrow> get_pending_approvals m (Some r)
     = filter (\<lambda>a. status a = ''pending'' \<and> requester_id a = r) (map snd (pending_approvals m))"
  by (simp_all add: get_pending_approvals_def conj_commute)

lemma request_approval_new_key:
  assumes "fst (request_approval m ty c md rq t1 t2) \<notin> fst ` set (pending_approvals m)"
  shows "\<exists>a. pending_approvals (snd (request_approval m ty c md rq t1 t2))
            = pending_approvals m @ [(fst (request_approval m ty c md rq t1 t2), a)]
          \<and> status a = ''pending''"
proof -
  have "k \<notin> fst ` set al \<Longrightarrow> AList.update k v al = al @ [(k, v)]" for k :: string and v :: approval_request and al
    by (induction al) auto
  with assms show ?thesis
    by (simp add: request_approval_def Let_def del: append.simps)
qed

text \<open>
  C2, as stated, fails: a request that was rejected by user 9 is approved afterwards by
  user 8, and status, approver, time and comments of the record all change.
\<close>

theorem approve_after_reject_counterexample:
  "get_approval_status example_am_rejected ''document_20240102030405_7'' = ''rejected''
   \<and> map_option approved_by (map_of (pending_approvals example_am_rejected) ''document_20240102030405_7'')
       = Some (Some 9)
   \<and> get_approval_status example_am_reapproved ''document_20240102030405_7'' = ''approved''
   \<and> map_option approved_by (map_of (pending_approvals example_am_reapproved) ''document_20240102030405_7'')
       = Some (Some 8)
   \<and> map_option approved_at (map_of (pending_approvals example_am_reapproved) ''document_20240102030405_7'')
       = Some (Some clock_c)
   \<and> map_option comments_ap (map_of (pending_approvals example_am_reapproved) ''document_20240102030405_7'')
       = Some (Some ''fine'')"
  by (simp add: example_am_reapproved_def example_am_rejected_def request_approval_def reject_def
      approve_def get_approval_status_def example_eval)

text \<open>
  C2, amended. \<open>approve\<close> and \<open>reject\<close> do not look at the current status. On every
  request that is in the store, pending or not, \<open>approve\<close> sets the status to approved and
  overwrites approver, time and comments, leaving the rejection reason; \<open>reject\<close> sets the
  status to rejected and overwrites approver, time and rejection reason, leaving the
  comments. The only guard is existence: an unknown identifier raises \<open>ValueError\<close> and
  leaves the manager unchanged.
\<close>

theorem approve_reject_overwrite:
  "(map_of (pending_approvals m) aid = Some a \<longrightarrow>
      (\<exists>a'. fst (approve m aid approver comments mods now) = Inr a'
          \<and> map_of (pending_approvals (snd (approve m aid approver comments mods now))) aid = Some a'
          \<and> status a' = ''approved'' \<and> approved_by a' = Some approver \<and> approved_at a' = Some now
          \<and> comments_ap a' = comments \<and> rejection_reason a' = rejection_reason a)
    \<and> (\<exists>a'. fst (reject m aid approver reason now) = Inr a'
          \<and> map_of (pending_approvals (snd (reject m aid approver reason now))) aid = Some a'
          \<and> status a' = ''rejected'' \<and> approved_by a' = Some approver \<and> approved_at a' = Some now
          \<and> rejection_reason a' = Some reason \<and> comments_ap a' = comments_ap a))
   \<and> (map_of (pending_approvals m) aid = None \<longrightarrow>
        approve m aid approver comments mods now
          = (Inl (Raise ValueError (''Approval request '' @ aid @ '' not found'')), m)
      \<and> reject m aid approver reason now
          = (Inl (Raise ValueError (''Approval request '' @ aid @ '' not found'')), m))"
  by (auto simp: approve_def reject_def Let_def update_conv' split: option.splits simp del: append.simps)

theorem approve_reject_overwrite_witness:
  "status (the (map_of (pending_approvals example_am_rejected) ''document_20240102030405_7'')) = ''rejected''
   \<and> (\<exists>a'. fst (approve example_am_rejected ''document_20240102030405_7'' 8 (Some ''fine'') None clock_c) = Inr a'
          \<and> status a' = ''approved'' \<and> approved_by a' = Some 8 \<and> approved_at a' = Some clock_c
          \<and> comments_ap a' = Some ''fine'' \<and> rejection_reason a' = Some ''needs work'')
   \<and> map_of (pending_approvals example_am_rejected) ''unknown'' = None
   \<and> fst (reject example_am_rejected ''unknown'' 8 ''no'' clock_c)
        = Inl (Raise ValueError ''Approval request unknown not found'')"
proof -
  obtain a where h: "map_of (pending_approvals example_am_rejected) ''document_20240102030405_7'' = Some a"
    and st: "status a = ''rejected''" and rr: "rejection_reason a = Some ''needs work''"
    by (simp add: example_am_rejected_def request_approval_def reject_def example_eval)
  have n: "map_of (pending_approvals example_am_rejected) ''unknown'' = None"
    by (simp add: example_am_rejected_def request_approval_def reject_def example_eval)
  from approve_reject_overwrite [of example_am_rejected "''document_20240102030405_7''" a 8
      "Some ''fine''" None clock_c "''no''"] h
  obtain a' where "fst (approve example_am_rejected ''document_20240102030405_7'' 8 (Some ''fine'') None clock_c) = Inr a'"
    "status a' = ''approved''" "approved_by a' = Some 8" "approved_at a' = Some clock_c"
    "comments_ap a' = Some ''fine''" "rejection_reason a' = rejection_reason a"
    by blast
  moreover from approve_reject_overwrite [of example_am_rejected "''unknown''" a 8 None None clock_c "''no''"] n
  have "fst (reject example_am_rejected ''unknown'' 8 ''no'' clock_c)
        = Inl (Raise ValueError ''Approval request unknown not found'')" by simp
  ultimately show ?thesis using h st rr n by auto
qed

text \<open>
  C3. Two requests of the same type by the same requester within one second get the same
  identifier, although the clock readings differ; the second request replaces the first in
  the store, which still holds one record.
\<close>

theorem request_approval_same_second:
  "clock_a \<noteq> clock_b
   \<and> fst example_first_request = ''document_20240102030405_7''
   \<and> fst example_second_request = fst example_first_request
   \<and> map (content \<circ> snd) (pending_approvals (snd example_first_request)) = [''first draft'']
   \<and> map (content \<circ> snd) (pending_approvals (snd example_second_request)) = [''second draft'']"
proof -
  have "clock_a \<noteq> clock_b" by (simp add: clock_a_def clock_b_def)
  then show ?thesis
    by (simp add: example_first_request_def example_second_request_def request_approval_def example_eval)
qed

text \<open>
  C9. With the requester 0 the filter is skipped: \<open>get_pending_approvals\<close> returns the
  pending request of requester 5, as it does with no requester at all, where requester 3
  gets the empty list.
\<close>

theorem get_pending_approvals_requester_zero:
  "map requester_id (get_pending_approvals example_am_pending None) = [5]
   \<and> map requester_id (get_pending_approvals example_am_pending (Some 3)) = []
   \<and> map requester_id (get_pending_approvals example_am_pending (Some 0)) = [5]"
  by (simp add: example_am_pending_def request_approval_def get_pending_approvals_def example_eval)


section \<open>Orchestrator: the steps of an operation\<close>

lemma info_simps [simp]:
  "db (info msg w) = db w"
  "agent_calls (info msg w) = agent_calls w"
  "log_orch (info msg w) = log_orch w @ [LInfo msg]"
  by (simp_all add: info_def)

lemma contract_data_of_db:
  "legal_documents (db w) = legal_documents (db w') \<Longrightarrow>
     contract_data_of e cid kwargs w = contract_data_of e cid kwargs w'"
  by (simp add: contract_data_of_def get_document_by_id_def)

lemma lookup_info [simp]:
  "get_lawyer_by_id e l (info msg w) = get_lawyer_by_id e l w"
  "get_case_by_id e c (info msg w) = get_case_by_id e c w"
  "get_case_documents e i (info msg w) = get_case_documents e i w"
  "contract_data_of e cid kwargs (info msg w) = contract_data_of e cid kwargs w"
  by (simp_all add: get_lawyer_by_id_def get_case_by_id_def get_document_by_id_def
      get_case_documents_def contract_data_of_def)

lemma research_case_facts_info [simp]:
  "research_case_facts e kwargs rd (info msg w) = research_case_facts e kwargs rd w"
  by (simp add: research_case_facts_def split: option.splits)

lemma try_log_simps [simp]:
  "try_log p (Inl x, w) = (Inl x, w\<lparr>log_orch := log_orch w @ [LError (p @ str_exn x)]\<rparr>)"
  "try_log p (Inr v, w) = (Inr v, w)"
  by (simp_all add: try_log_def)

lemma calls_not_extended [simp]: "xs \<noteq> xs @ [c]"
  by simp

lemma research_case_facts_legal_issue:
  assumes "research_case_facts e kwargs rd0 w = Inr rd"
  shows "map_of rd ''legal_issue'' = map_of rd0 ''legal_issue''"
  using assms
  by (auto simp: research_case_facts_def update_conv' split: option.splits if_splits sum.splits)

lemma insert_frame:
  "add_research_session e data w = Inr (i, w') \<Longrightarrow>
     legal_documents (db w') = legal_documents (db w) \<and> agent_calls w' = agent_calls w"
  "save_analysis_result e data w = Inr (i, w') \<Longrightarrow>
     legal_documents (db w') = legal_documents (db w) \<and> agent_calls w' = agent_calls w"
  by (auto simp: add_research_session_def save_analysis_result_def split: sum.splits)

lemma analyze_contract_success:
  assumes ok: "fst (analyze_contract e lawyer_id contract_id kwargs w) = Inr answer"
  shows "\<exists>d. contract_data_of e contract_id kwargs w = Inr d
          \<and> agent_calls (snd (analyze_contract e lawyer_id contract_id kwargs w))
              = agent_calls w @ [(AnalyzeContract, d)]
          \<and> legal_documents (db (snd (analyze_contract e lawyer_id contract_id kwargs w)))
              = legal_documents (db w)"
proof (cases "contract_data_of e contract_id kwargs w")
  case (Inl y)
  with ok show ?thesis by (simp add: analyze_contract_def Let_def)
next
  case cd: (Inr d)
  show ?thesis
  proof (cases "agent e (length (agent_calls w)) AnalyzeContract d")
    case (Inl y)
    with cd ok show ?thesis by (simp add: analyze_contract_def Let_def call_agent_def)
  next
    case res: (Inr result)
    let ?w1 = "(info (''Analyzing contract for lawyer '' @ str_int lawyer_id) w)
                 \<lparr>agent_calls := agent_calls w @ [(AnalyzeContract, d)]\<rparr>"
    let ?row = "analysis_row ''contract_analysis'' ''contract''
                  (if truthy contract_id then contract_id else PInt 0) lawyer_id result"
    show ?thesis
    proof (cases "save_analysis_result e ?row ?w1")
      case (Inl y)
      with cd res ok show ?thesis by (simp add: analyze_contract_def Let_def call_agent_def)
    next
      case (Inr p)
      obtain i w2 where p: "p = (i, w2)" by (cases p)
      from insert_frame(2) [OF Inr [unfolded p]] cd res Inr p show ?thesis
        by (simp add: analyze_contract_def Let_def call_agent_def)
    qed
  qed
qed

lemma research_case_law_success:
  assumes ok: "fst (research_case_law e lawyer_id kwargs w) = Inr answer"
  shows "\<exists>d. agent_calls (snd (research_case_law e lawyer_id kwargs w))
              = agent_calls w @ [(ResearchPrecedents, d)]
          \<and> legal_documents (db (snd (research_case_law e lawyer_id kwargs w)))
              = legal_documents (db w)"
proof (cases "get_lawyer_by_id e lawyer_id w")
  case (Inl y)
  with ok show ?thesis by (simp add: research_case_law_def Let_def)
next
  case (Inr lawyer_opt)
  show ?thesis
  proof (cases lawyer_opt)
    case None
    with Inr ok show ?thesis by (simp add: research_case_law_def Let_def)
  next
    case (Some lawyer)
    show ?thesis
    proof (cases "research_case_facts e kwargs (research_data_of kwargs lawyer) w")
      case (Inl y)
      with Inr Some ok show ?thesis by (simp add: research_case_law_def Let_def)
    next
      case rd: (Inr d)
      show ?thesis
      proof (cases "agent e (length (agent_calls w)) ResearchPrecedents d")
        case (Inl y)
        with Inr Some rd ok show ?thesis by (simp add: research_case_law_def Let_def call_agent_def)
      next
        case res: (Inr result)
        show ?thesis
        proof (cases "slice_to 50 (dict_get d ''legal_issue'' (PStr ''Unknown''))")
          case (Inl y)
          with Inr Some rd res ok show ?thesis
            by (simp add: research_case_law_def Let_def call_agent_def)
        next
          case sl: (Inr issue)
          let ?w1 = "(info (''Starting case law research for lawyer '' @ str_int lawyer_id) w)
                       \<lparr>agent_calls := agent_calls w @ [(ResearchPrecedents, d)]\<rparr>"
          show ?thesis
          proof (cases "add_research_session e
                          (research_session_row e lawyer_id kwargs d issue result) ?w1")
            case (Inl y)
            with Inr Some rd res sl ok show ?thesis
              by (simp add: research_case_law_def Let_def call_agent_def)
          next
            case ins: (Inr p)
            obtain i w2 where p: "p = (i, w2)" by (cases p)
            from insert_frame(1) [OF ins [unfolded p]] Inr Some rd res sl ins p show ?thesis
              by (simp add: research_case_law_def Let_def call_agent_def)
          qed
        qed
      qed
    qed
  qed
qed

lemma develop_litigation_strategy_success:
  assumes ok: "fst (develop_litigation_strategy e lawyer_id case_id kwargs w) = Inr answer"
  shows "\<exists>d. agent_calls (snd (develop_litigation_strategy e lawyer_id case_id kwargs w))
              = agent_calls w @ [(AnalyzeCaseStrategy, d)]
          \<and> legal_documents (db (snd (develop_litigation_strategy e lawyer_id case_id kwargs w)))
              = legal_documents (db w)"
proof (cases "get_case_by_id e (PInt case_id) w")
  case (Inl y)
  with ok show ?thesis by (simp add: develop_litigation_strategy_def Let_def)
next
  case c: (Inr case_opt)
  show ?thesis
  proof (cases case_opt)
    case None
    with c ok show ?thesis by (simp add: develop_litigation_strategy_def Let_def)
  next
    case sc: (Some c')
    show ?thesis
    proof (cases "get_lawyer_by_id e lawyer_id w")
      case (Inl y)
      with c sc ok show ?thesis by (simp add: develop_litigation_strategy_def Let_def)
    next
      case (Inr lawyer_opt)
      show ?thesis
      proof (cases lawyer_opt)
        case None
        with c sc Inr ok show ?thesis by (simp add: develop_litigation_strategy_def Let_def)
      next
        case (Some lawyer)
        show ?thesis
        proof (cases "agent e (length (agent_calls w)) AnalyzeCaseStrategy (case_data_of kwargs c')")
          case (Inl y)
          with c sc Inr Some ok show ?thesis
            by (simp add: develop_litigation_strategy_def Let_def call_agent_def)
        next
          case res: (Inr result)
          let ?w1 = "(info (''Developing litigation strategy for case '' @ str_int case_id) w)
                       \<lparr>agent_calls := agent_calls w @ [(AnalyzeCaseStrategy, case_data_of kwargs c')]\<rparr>"
          show ?thesis
          proof (cases "save_analysis_result e
                          (analysis_row ''litigation_strategy'' ''case'' (PInt case_id) lawyer_id result) ?w1")
            case (Inl y)
            with c sc Inr Some res ok show ?thesis
              by (simp add: develop_litigation_strategy_def Let_def call_agent_def)
          next
            case ins: (Inr p)
            obtain i w2 where p: "p = (i, w2)" by (cases p)
            from insert_frame(2) [OF ins [unfolded p]] c sc Inr Some res ins p show ?thesis
              by (simp add: develop_litigation_strategy_def Let_def call_agent_def)
          qed
        qed
      qed
    qed
  qed
qed

lemma analyzes_db:
  "legal_documents (db w) = legal_documents (db w') \<Longrightarrow> analyzes e w = analyzes e w'"
  by (simp add: analyzes_def fun_eq_iff contract_data_of_db [of w w'])

lemma analyze_documents_success:
  assumes "analyze_documents e lawyer_id docs acc w = (Inr analyses, w')"
  shows "legal_documents (db w') = legal_documents (db w)
       \<and> length analyses = length acc + length (filter is_contract_document docs)
       \<and> (\<exists>calls. agent_calls w' = agent_calls w @ calls
             \<and> list_all2 (analyzes e w) calls (filter is_contract_document docs))"
  using assms
proof (induction docs arbitrary: acc w)
  case Nil
  then show ?case by simp
next
  case (Cons doc docs)
  show ?case
  proof (cases "is_contract_document doc")
    case False
    with Cons.prems have "analyze_documents e lawyer_id docs acc w = (Inr analyses, w')" by simp
    from Cons.IH [OF this] False show ?thesis by simp
  next
    case True
    obtain r w1 where ac: "analyze_contract e lawyer_id (row_get doc ''id'') [] w = (r, w1)"
      by (cases "analyze_contract e lawyer_id (row_get doc ''id'') [] w")
    show ?thesis
    proof (cases r)
      case (Inl y)
      with True ac Cons.prems show ?thesis by simp
    next
      case (Inr analysis)
      with True ac Cons.prems
      have rest: "analyze_documents e lawyer_id docs (acc @ [analysis]) w1 = (Inr analyses, w')"
        by simp
      from ac Inr have "fst (analyze_contract e lawyer_id (row_get doc ''id'') [] w) = Inr analysis"
        by simp
      from analyze_contract_success [OF this] ac
      obtain d where d: "contract_data_of e (row_get doc ''id'') [] w = Inr d"
        and calls1: "agent_calls w1 = agent_calls w @ [(AnalyzeContract, d)]"
        and docs1: "legal_documents (db w1) = legal_documents (db w)"
        by auto
      from Cons.IH [OF rest] obtain calls where
        a: "legal_documents (db w') = legal_documents (db w1)"
        and b: "length analyses = length (acc @ [analysis]) + length (filter is_contract_document docs)"
        and c: "agent_calls w' = agent_calls w1 @ calls"
        and e: "list_all2 (analyzes e w1) calls (filter is_contract_document docs)"
        by auto
      from e analyzes_db [OF docs1, of e]
      have e': "list_all2 (analyzes e w) calls (filter is_contract_document docs)" by simp
      have "analyzes e w (AnalyzeContract, d) doc" using d by (simp add: analyzes_def)
      with e' True have "list_all2 (analyzes e w) ((AnalyzeContract, d) # calls)
          (filter is_contract_document (doc # docs))" by simp
      moreover have "agent_calls w' = agent_calls w @ ((AnalyzeContract, d) # calls)"
        using c calls1 by simp
      ultimately show ?thesis using a b docs1 True by auto
    qed
  qed
qed

lemma get_case_documents_db:
  "legal_documents (db w) = legal_documents (db w') \<Longrightarrow>
     get_case_documents e i w = get_case_documents e i w'"
  by (simp add: get_case_documents_def)

lemma unknown_lawyer_fails_fast:
  assumes "get_lawyer_by_id e lawyer_id w = Inr None"
  shows "fst (research_case_law e lawyer_id kwargs w) = Inl (lawyer_not_found lawyer_id)
       \<and> agent_calls (snd (research_case_law e lawyer_id kwargs w)) = agent_calls w
       \<and> db (snd (research_case_law e lawyer_id kwargs w)) = db w"
    and "fst (assess_compliance e lawyer_id kwargs w) = Inl (lawyer_not_found lawyer_id)
       \<and> agent_calls (snd (assess_compliance e lawyer_id kwargs w)) = agent_calls w
       \<and> db (snd (assess_compliance e lawyer_id kwargs w)) = db w"
    and "sql_error e (Select ''cases'' (PInt case_id)) = None \<Longrightarrow>
         (fst (develop_litigation_strategy e lawyer_id case_id kwargs w) = Inl (case_not_found case_id)
          \<or> fst (develop_litigation_strategy e lawyer_id case_id kwargs w) = Inl (lawyer_not_found lawyer_id))
       \<and> agent_calls (snd (develop_litigation_strategy e lawyer_id case_id kwargs w)) = agent_calls w
       \<and> db (snd (develop_litigation_strategy e lawyer_id case_id kwargs w)) = db w"
proof -
  show "fst (research_case_law e lawyer_id kwargs w) = Inl (lawyer_not_found lawyer_id)
       \<and> agent_calls (snd (research_case_law e lawyer_id kwargs w)) = agent_calls w
       \<and> db (snd (research_case_law e lawyer_id kwargs w)) = db w"
    using assms by (simp add: research_case_law_def Let_def)
  show "fst (assess_compliance e lawyer_id kwargs w) = Inl (lawyer_not_found lawyer_id)
       \<and> agent_calls (snd (assess_compliance e lawyer_id kwargs w)) = agent_calls w
       \<and> db (snd (assess_compliance e lawyer_id kwargs w)) = db w"
    using assms by (simp add: assess_compliance_def Let_def)
  assume sel: "sql_error e (Select ''cases'' (PInt case_id)) = None"
  show "(fst (develop_litigation_strategy e lawyer_id case_id kwargs w) = Inl (case_not_found case_id)
          \<or> fst (develop_litigation_strategy e lawyer_id case_id kwargs w) = Inl (lawyer_not_found lawyer_id))
       \<and> agent_calls (snd (develop_litigation_strategy e lawyer_id case_id kwargs w)) = agent_calls w
       \<and> db (snd (develop_litigation_strategy e lawyer_id case_id kwargs w)) = db w"
  proof (cases "get_case_by_id e (PInt case_id) w")
    case (Inl y)
    with sel show ?thesis
      by (simp add: get_case_by_id_def select_where_def first_row_def split: list.splits)
  next
    case (Inr case_opt)
    with assms show ?thesis
      by (cases case_opt) (simp_all add: develop_litigation_strategy_def Let_def)
  qed
qed


section \<open>Orchestrator: the examples\<close>

lemma str_int_99: "str_int 99 = ''99''"
  by (simp add: str_int_def str_nat_big str_nat_small digit_char_def)

lemmas orch_eval =
  get_lawyer_by_id_def get_case_by_id_def get_document_by_id_def get_case_documents_def
  select_where_def first_row_def row_get_def dict_get_def call_agent_def
  add_research_session_def save_analysis_result_def add_document_def execute_insert_def next_id_def
  research_case_facts_def research_data_of_def research_session_row_def analysis_row_def
  contract_data_of_def compliance_data_of_def case_data_of_def document_row_def research_kwargs_of_def
  lawyer_not_found_def case_not_found_def
  example_world_def example_db_def env_ok_def env_locked_def Let_def str_int_small str_int_99

lemma example_documents_sorted:
  "order_by_desc ''creation_date'' example_documents = example_documents"
  by (simp add: order_by_desc_def example_documents_def example_document_def row_get_def)

lemma example_case_documents:
  assumes "legal_documents (db w) = example_documents"
  shows "get_case_documents env_ok 1 w = Inr example_documents"
proof -
  have "filter (\<lambda>r. map_of r ''case_id'' = Some (PInt 1)) example_documents = example_documents"
    by (simp add: example_documents_def example_document_def)
  with assms show ?thesis
    by (simp add: get_case_documents_def select_where_def env_ok_def example_documents_sorted)
qed

lemma example_first_three:
  "analyze_documents e l (take 3 example_documents) [] w = (Inr [], w)"
proof -
  have "\<not> is_contract_document (example_document i ''memo'' date)" for i date
    by (simp add: is_contract_document_def example_document_def row_get_def)
  then show ?thesis by (simp add: example_documents_def)
qed

lemma example_comprehensive:
  "fst (comprehensive_case_analysis env_ok 1 1 example_world)
       = Inr \<lparr>case_law_research = ''generated text'', litigation_strategy = ''generated text'',
              document_analyses = Some []\<rparr>"
  "map fst (agent_calls (snd (comprehensive_case_analysis env_ok 1 1 example_world)))
       = [ResearchPrecedents, AnalyzeCaseStrategy]"
proof -
  have ne: "example_documents \<noteq> []" by (simp add: example_documents_def)
  have docs: "get_case_documents env_ok 1 w = Inr example_documents"
    if "legal_documents (db w) = legal_documents example_db" for w
    using that by (intro example_case_documents) (simp add: example_db_def)
  have lawyer: "get_lawyer_by_id env_ok 1 w = Inr (Some (hd (lawyers example_db)))"
    if "lawyers (db w) = lawyers example_db" for w
    using that by (simp add: get_lawyer_by_id_def select_where_def first_row_def env_ok_def example_db_def)
  have cas: "get_case_by_id env_ok (PInt 1) w = Inr (Some (hd (cases example_db)))"
    if "cases (db w) = cases example_db" for w
    using that by (simp add: get_case_by_id_def select_where_def first_row_def env_ok_def example_db_def)
  have key: "row_get (hd (cases example_db)) ''key_issues'' = PStr ''breach of contract''"
    by (simp add: example_db_def row_get_def)
  have ins: "sql_error env_ok s = None" "agent env_ok n m d = Inr ''generated text''" for s n m d
    by (simp_all add: env_ok_def)
  show "fst (comprehensive_case_analysis env_ok 1 1 example_world)
       = Inr \<lparr>case_law_research = ''generated text'', litigation_strategy = ''generated text'',
              document_analyses = Some []\<rparr>"
    by (simp add: comprehensive_case_analysis_def research_case_law_def develop_litigation_strategy_def
        research_case_facts_def research_kwargs_of_def research_data_of_def dict_get_def
        call_agent_def add_research_session_def save_analysis_result_def execute_insert_def
        example_world_def Let_def docs lawyer cas key ins ne example_first_three)
  show "map fst (agent_calls (snd (comprehensive_case_analysis env_ok 1 1 example_world)))
       = [ResearchPrecedents, AnalyzeCaseStrategy]"
    by (simp add: comprehensive_case_analysis_def research_case_law_def develop_litigation_strategy_def
        research_case_facts_def research_kwargs_of_def research_data_of_def dict_get_def
        call_agent_def add_research_session_def save_analysis_result_def execute_insert_def
        example_world_def Let_def docs lawyer cas key ins ne example_first_three)
qed

section \<open>Orchestrator: persistence after generation\<close>

text \<open>
  C1, as stated, fails: with a database that is locked for writing the generation call of
  \<open>research_case_law\<close> is made and returns its text, the insert raises, and the operation
  raises that error to the caller instead of returning the text; the error is logged.
\<close>

theorem research_write_failure_counterexample:
  "agent env_locked 0 ResearchPrecedents
       [(''legal_issue'', PStr ''breach of contract''), (''jurisdiction'', PStr ''Federal''),
        (''practice_area'', PStr ''Corporate Law''), (''current_facts'', PNone),
        (''precedents'', PList [])] = Inr ''generated text''
   \<and> agent_calls (snd (research_case_law env_locked 1 [(''legal_issue'', PStr ''breach of contract'')]
        example_world))
       = [(ResearchPrecedents,
           [(''legal_issue'', PStr ''breach of contract''), (''jurisdiction'', PStr ''Federal''),
            (''practice_area'', PStr ''Corporate Law''), (''current_facts'', PNone),
            (''precedents'', PList [])])]
   \<and> fst (research_case_law env_locked 1 [(''legal_issue'', PStr ''breach of contract'')] example_world)
       = Inl (Raise DatabaseError ''database is locked'')
   \<and> log_orch (snd (research_case_law env_locked 1 [(''legal_issue'', PStr ''breach of contract'')]
        example_world))
       = [LInfo ''Starting case law research for lawyer 1'',
          LError ''Case law research failed: database is locked'']"
  by (simp add: research_case_law_def orch_eval)

section \<open>Orchestrator: the requester\<close>

text \<open>
  C4. \<open>analyze_contract\<close> and \<open>draft_legal_document\<close> never look the lawyer up: for the
  lawyer 99, whom the database does not know, the contract agent is called, the text is
  returned and an analysis row with \<open>lawyer_id = 99\<close> is written; the drafting agent is
  called likewise. The other three operations fail before any generation call and any
  write (\<open>unknown_lawyer_fails_fast\<close>).
\<close>

theorem analyze_contract_unknown_lawyer:
  "get_lawyer_by_id env_ok 99 example_world = Inr None
   \<and> fst (analyze_contract env_ok 99 PNone [(''contract_text'', PStr ''The parties agree'')] example_world)
       = Inr ''generated text''
   \<and> agent_calls (snd (analyze_contract env_ok 99 PNone [(''contract_text'', PStr ''The parties agree'')]
        example_world))
       = [(AnalyzeContract, [(''contract_text'', PStr ''The parties agree'')])]
   \<and> map (\<lambda>r. row_get r ''lawyer_id'')
        (analysis_results (db (snd (analyze_contract env_ok 99 PNone
           [(''contract_text'', PStr ''The parties agree'')] example_world)))) = [PInt 99]
   \<and> fst (draft_legal_document env_ok 99 ''memo'' [(''title'', PStr ''Venue'')] clock_a example_world)
       = Inr ''generated text''
   \<and> map fst (agent_calls (snd (draft_legal_document env_ok 99 ''memo'' [(''title'', PStr ''Venue'')]
        clock_a example_world))) = [DraftLegalMemo]"
  by (simp add: analyze_contract_def draft_legal_document_def drafting_method_def orch_eval)


section \<open>Orchestrator: the documents of a comprehensive analysis\<close>

text \<open>
  C6, as stated, fails: the case has four contract-type documents, but the three newest
  documents are memos; the loop runs over these three, analyses none, and the contract
  agent is never called.
\<close>

theorem comprehensive_first_three_counterexample:
  "get_case_documents env_ok 1 example_world = Inr example_documents
   \<and> map (\<lambda>d. row_get d ''document_type'') example_documents
       = [PStr ''memo'', PStr ''memo'', PStr ''memo'', PStr ''contract'', PStr ''contract'',
          PStr ''agreement'', PStr ''contract'']
   \<and> length (filter is_contract_document example_documents) = 4
   \<and> fst (comprehensive_case_analysis env_ok 1 1 example_world)
       = Inr \<lparr>case_law_research = ''generated text'', litigation_strategy = ''generated text'',
              document_analyses = Some []\<rparr>
   \<and> map fst (agent_calls (snd (comprehensive_case_analysis env_ok 1 1 example_world)))
       = [ResearchPrecedents, AnalyzeCaseStrategy]"
proof -
  have "legal_documents (db example_world) = example_documents"
    by (simp add: example_world_def example_db_def)
  then have "get_case_documents env_ok 1 example_world = Inr example_documents"
    by (rule example_case_documents)
  moreover have "map (\<lambda>d. row_get d ''document_type'') example_documents
       = [PStr ''memo'', PStr ''memo'', PStr ''memo'', PStr ''contract'', PStr ''contract'',
          PStr ''agreement'', PStr ''contract'']"
    by (simp add: example_documents_def example_document_def row_get_def)
  moreover have "length (filter is_contract_document example_documents) = 4"
    by (simp add: example_documents_def example_document_def row_get_def is_contract_document_def)
  ultimately show ?thesis using example_comprehensive by simp
qed


section \<open>Feedback: a failed submission\<close>

text \<open>
  C10. A submission with a rating outside 1 to 5 raises \<open>ValueError\<close> and returns the
  handler as it was with the counter advanced by one, so the store and the log are
  unchanged. And of three submissions in a row from any handler state, with a valid, an
  invalid and a valid rating: the first is assigned the identifier numbered with the
  counter plus one and leaves the counter at that number; the second raises and leaves
  the store and the log as the first left them; the third is assigned the identifier
  numbered with the counter plus three. The number in between was consumed by the
  failure, so the numbers of the identifiers assigned are not consecutive.
\<close>

theorem submit_feedback_failure:
  assumes ok1: "1 \<le> r1 \<and> r1 \<le> 5" and bad: "r2 < 1 \<or> r2 > 5" and ok3: "1 \<le> r3 \<and> r3 \<le> 5"
  shows "submit_feedback g c2 ty2 u2 r2 cm2 is2 t2 s2
           = (Inl (Raise ValueError ''Rating must be between 1 and 5''),
              g\<lparr>feedback_counter := feedback_counter g + 1\<rparr>)
       \<and> (let h1 = snd (submit_feedback h c1 ty1 u1 r1 cm1 is1 t1 s1);
                h2 = snd (submit_feedback h1 c2 ty2 u2 r2 cm2 is2 t2 s2)
            in fst (submit_feedback h c1 ty1 u1 r1 cm1 is1 t1 s1)
                 = Inr (''feedback_'' @ str_int (feedback_counter h + 1) @ ''_'' @ strftime_YmdHMS t1)
             \<and> feedback_counter h1 = feedback_counter h + 1
             \<and> (\<exists>x. fst (submit_feedback h1 c2 ty2 u2 r2 cm2 is2 t2 s2) = Inl x)
             \<and> feedback_store h2 = feedback_store h1
             \<and> log_fh h2 = log_fh h1
             \<and> feedback_counter h2 = feedback_counter h + 2
             \<and> fst (submit_feedback h2 c3 ty3 u3 r3 cm3 is3 t3 s3)
                 = Inr (''feedback_'' @ str_int (feedback_counter h + 3) @ ''_'' @ strftime_YmdHMS t3))"
proof -
  let ?h1 = "snd (submit_feedback h c1 ty1 u1 r1 cm1 is1 t1 s1)"
  let ?h2 = "snd (submit_feedback ?h1 c2 ty2 u2 r2 cm2 is2 t2 s2)"
  have fail: "submit_feedback g c2 ty2 u2 r2 cm2 is2 t2 s2
           = (Inl (Raise ValueError ''Rating must be between 1 and 5''),
              g\<lparr>feedback_counter := feedback_counter g + 1\<rparr>)" for g
    using bad by (auto simp: submit_feedback_def Let_def)
  have succ: "fst (submit_feedback g c ty u r cm iss t s)
        = Inr (''feedback_'' @ str_int (feedback_counter g + 1) @ ''_'' @ strftime_YmdHMS t)
      \<and> feedback_counter (snd (submit_feedback g c ty u r cm iss t s)) = feedback_counter g + 1"
    if "1 \<le> r \<and> r \<le> 5" for g c ty u r cm iss t s
    using that by (simp add: submit_feedback_def Let_def del: append.simps)
  note first = succ [OF ok1, of h c1 ty1 u1 cm1 is1 t1 s1]
  have h2: "?h2 = ?h1\<lparr>feedback_counter := feedback_counter ?h1 + 1\<rparr>"
    by (simp add: fail)
  have c2: "feedback_counter ?h2 = feedback_counter h + 2"
    using first by (simp add: h2)
  have third: "fst (submit_feedback ?h2 c3 ty3 u3 r3 cm3 is3 t3 s3)
      = Inr (''feedback_'' @ str_int (feedback_counter h + 3) @ ''_'' @ strftime_YmdHMS t3)"
  proof -
    have "feedback_counter ?h2 + 1 = feedback_counter h + 3" using c2 by simp
    with succ [OF ok3, of ?h2 c3 ty3 u3 cm3 is3 t3 s3] show ?thesis by simp
  qed
  have failed: "\<exists>x. fst (submit_feedback ?h1 c2 ty2 u2 r2 cm2 is2 t2 s2) = Inl x"
    by (simp add: fail)
  have kept: "feedback_store ?h2 = feedback_store ?h1" "log_fh ?h2 = log_fh ?h1"
    by (simp_all add: h2)
  show ?thesis
    unfolding Let_def using fail [of g] first c2 third failed kept by blast
qed

theorem submit_feedback_failure_witness:
  "fst (submit_feedback feedback_handler_init ''doc1'' ''contract_analysis'' 3 4 None None clock_a clock_a)
     = Inr ''feedback_1_20240102030405''
   \<and> fst (submit_feedback example_fh_one ''doc2'' ''memo'' 3 0 None None clock_b clock_b)
     = Inl (Raise ValueError ''Rating must be between 1 and 5'')
   \<and> feedback_store (snd (submit_feedback example_fh_one ''doc2'' ''memo'' 3 0 None None clock_b clock_b))
     = feedback_store example_fh_one
   \<and> fst (submit_feedback
            (snd (submit_feedback example_fh_one ''doc2'' ''memo'' 3 0 None None clock_b clock_b))
            ''doc3'' ''memo'' 3 5 None None clock_c clock_c)
     = Inr ''feedback_3_20240102030406''"
proof -
  have a: "(1::int) \<le> 4 \<and> (4::int) \<le> 5" and b: "(0::int) < 1 \<or> (0::int) > 5"
    and c: "(1::int) \<le> 5 \<and> (5::int) \<le> 5" by simp_all
  have z: "feedback_counter feedback_handler_init = 0" by (simp add: feedback_handler_init_def)
  note t = submit_feedback_failure [OF a b c, where h = feedback_handler_init and g = example_fh_one
      and ?c1.0 = "''doc1''" and ?ty1.0 = "''contract_analysis''" and ?u1.0 = 3 and ?cm1.0 = None
      and ?is1.0 = None and ?t1.0 = clock_a and ?s1.0 = clock_a
      and ?c2.0 = "''doc2''" and ?ty2.0 = "''memo''" and ?u2.0 = 3 and ?cm2.0 = None
      and ?is2.0 = None and ?t2.0 = clock_b and ?s2.0 = clock_b
      and ?c3.0 = "''doc3''" and ?ty3.0 = "''memo''" and ?u3.0 = 3 and ?cm3.0 = None
      and ?is3.0 = None and ?t3.0 = clock_c and ?s3.0 = clock_c, unfolded Let_def]
  have e1: "snd (submit_feedback feedback_handler_init ''doc1'' ''contract_analysis'' 3 4 None None clock_a clock_a)
      = example_fh_one" by (simp add: example_fh_one_def)
  from t [THEN conjunct1]
  have A: "fst (submit_feedback example_fh_one ''doc2'' ''memo'' 3 0 None None clock_b clock_b)
     = Inl (Raise ValueError ''Rating must be between 1 and 5'')" by simp
  from t [THEN conjunct2]
  have B: "fst (submit_feedback feedback_handler_init ''doc1'' ''contract_analysis'' 3 4 None None clock_a clock_a)
     = Inr ''feedback_1_20240102030405''"
    and C: "feedback_store (snd (submit_feedback example_fh_one ''doc2'' ''memo'' 3 0 None None clock_b clock_b))
     = feedback_store example_fh_one"
    and D: "fst (submit_feedback
            (snd (submit_feedback example_fh_one ''doc2'' ''memo'' 3 0 None None clock_b clock_b))
            ''doc3'' ''memo'' 3 5 None None clock_c clock_c)
     = Inr ''feedback_3_20240102030406''"
    by (simp_all add: e1 z str_int_small strftime_clock_a strftime_clock_c)
  from A B C D show ?thesis by blast
qed


section \<open>Orchestrator: a write that raises after generation\<close>

lemma write_raises_insert:
  assumes "write_raises e ''research_sessions'' data x"
  shows "add_research_session e data w = Inl x"
  using assms by (simp add: add_research_session_def execute_insert_def write_raises_def)

lemma write_raises_analysis:
  assumes "write_raises e ''analysis_results'' data x"
  shows "save_analysis_result e data w = Inl x"
  using assms by (simp add: save_analysis_result_def execute_insert_def write_raises_def)

lemma write_raises_document:
  assumes "write_raises e ''legal_documents'' data x"
  shows "add_document e data w = Inl x"
  using assms by (simp add: add_document_def execute_insert_def write_raises_def)

lemma insert_calls:
  "add_research_session e data w = Inr (i, w') \<Longrightarrow> agent_calls w' = agent_calls w"
  "save_analysis_result e data w = Inr (i, w') \<Longrightarrow> agent_calls w' = agent_calls w"
  "add_document e data w = Inr (i, w') \<Longrightarrow> agent_calls w' = agent_calls w"
  by (auto simp: add_research_session_def save_analysis_result_def add_document_def
      split: sum.splits)

lemma research_case_law_write_fails:
  assumes gen: "generated_by e w (snd (research_case_law e lawyer_id kwargs w)) ResearchPrecedents d answer"
    and sl: "slice_to 50 (dict_get d ''legal_issue'' (PStr ''Unknown'')) = Inr issue"
    and wr: "write_raises e ''research_sessions''
               (research_session_row e lawyer_id kwargs d issue answer) x"
  shows "fst (research_case_law e lawyer_id kwargs w) = Inl x
       \<and> db (snd (research_case_law e lawyer_id kwargs w)) = db w
       \<and> log_orch (snd (research_case_law e lawyer_id kwargs w)) = log_orch w @
            [LInfo (''Starting case law research for lawyer '' @ str_int lawyer_id),
             LError (''Case law research failed: '' @ str_exn x)]"
proof (cases "get_lawyer_by_id e lawyer_id w")
  case (Inl y)
  with gen show ?thesis
    by (simp add: research_case_law_def Let_def generated_by_def del: append.simps)
next
  case (Inr lawyer_opt)
  show ?thesis
  proof (cases lawyer_opt)
    case None
    with Inr gen show ?thesis
      by (simp add: research_case_law_def Let_def generated_by_def del: append.simps)
  next
    case (Some lawyer)
    show ?thesis
    proof (cases "research_case_facts e kwargs (research_data_of kwargs lawyer) w")
      case (Inl y)
      with Inr Some gen show ?thesis
        by (simp add: research_case_law_def Let_def generated_by_def del: append.simps)
    next
      case rd: (Inr research_data)
      have calls: "agent_calls (snd (research_case_law e lawyer_id kwargs w))
          = agent_calls w @ [(ResearchPrecedents, research_data)]"
        using Inr Some rd
        by (auto simp: research_case_law_def Let_def call_agent_def
            split: sum.splits prod.splits dest: insert_calls simp del: append.simps)
      with gen have d: "research_data = d"
        and ans: "agent e (length (agent_calls w)) ResearchPrecedents d = Inr answer"
        by (simp_all add: generated_by_def)
      from Inr Some rd d ans sl write_raises_insert [OF wr] show ?thesis
        by (simp add: research_case_law_def Let_def call_agent_def del: append.simps)
    qed
  qed
qed


lemma analyze_contract_write_fails:
  assumes gen: "generated_by e w (snd (analyze_contract e lawyer_id contract_id kwargs w))
                  AnalyzeContract d answer"
    and wr: "write_raises e ''analysis_results''
               (analysis_row ''contract_analysis'' ''contract''
                  (if truthy contract_id then contract_id else PInt 0) lawyer_id answer) x"
  shows "fst (analyze_contract e lawyer_id contract_id kwargs w) = Inl x
       \<and> db (snd (analyze_contract e lawyer_id contract_id kwargs w)) = db w
       \<and> log_orch (snd (analyze_contract e lawyer_id contract_id kwargs w)) = log_orch w @
            [LInfo (''Analyzing contract for lawyer '' @ str_int lawyer_id),
             LError (''Contract analysis failed: '' @ str_exn x)]"
proof (cases "contract_data_of e contract_id kwargs w")
  case (Inl y)
  with gen show ?thesis
    by (simp add: analyze_contract_def Let_def generated_by_def del: append.simps)
next
  case cd: (Inr contract_data)
  have calls: "agent_calls (snd (analyze_contract e lawyer_id contract_id kwargs w))
      = agent_calls w @ [(AnalyzeContract, contract_data)]"
    using cd
    by (auto simp: analyze_contract_def Let_def call_agent_def
        split: sum.splits prod.splits dest: insert_calls simp del: append.simps)
  with gen have d: "contract_data = d"
    and ans: "agent e (length (agent_calls w)) AnalyzeContract d = Inr answer"
    by (simp_all add: generated_by_def)
  from cd d ans write_raises_analysis [OF wr] show ?thesis
    by (simp add: analyze_contract_def Let_def call_agent_def del: append.simps)
qed

lemma assess_compliance_write_fails:
  assumes gen: "generated_by e w (snd (assess_compliance e lawyer_id kwargs w)) AssessCompliance d answer"
    and wr: "write_raises e ''analysis_results''
               (analysis_row ''compliance_assessment'' ''organization'' (PInt 0) lawyer_id answer) x"
  shows "fst (assess_compliance e lawyer_id kwargs w) = Inl x
       \<and> db (snd (assess_compliance e lawyer_id kwargs w)) = db w
       \<and> log_orch (snd (assess_compliance e lawyer_id kwargs w)) = log_orch w @
            [LInfo (''Assessing compliance for lawyer '' @ str_int lawyer_id),
             LError (''Compliance assessment failed: '' @ str_exn x)]"
proof (cases "get_lawyer_by_id e lawyer_id w")
  case (Inl y)
  with gen show ?thesis
    by (simp add: assess_compliance_def Let_def generated_by_def del: append.simps)
next
  case (Inr lawyer_opt)
  show ?thesis
  proof (cases lawyer_opt)
    case None
    with Inr gen show ?thesis
      by (simp add: assess_compliance_def Let_def generated_by_def del: append.simps)
  next
    case (Some lawyer)
    have calls: "agent_calls (snd (assess_compliance e lawyer_id kwargs w))
        = agent_calls w @ [(AssessCompliance, compliance_data_of kwargs lawyer)]"
      using Inr Some
      by (auto simp: assess_compliance_def Let_def call_agent_def
          split: sum.splits prod.splits dest: insert_calls simp del: append.simps)
    with gen have d: "compliance_data_of kwargs lawyer = d"
      and ans: "agent e (length (agent_calls w)) AssessCompliance d = Inr answer"
      by (simp_all add: generated_by_def)
    from Inr Some d ans write_raises_analysis [OF wr] show ?thesis
      by (simp add: assess_compliance_def Let_def call_agent_def del: append.simps)
  qed
qed

lemma draft_legal_document_write_fails:
  assumes gen: "generated_by e w (snd (draft_legal_document e lawyer_id document_type kwargs now w))
                  m d answer"
    and wr: "write_raises e ''legal_documents''
               (document_row lawyer_id document_type kwargs now answer) x"
  shows "fst (draft_legal_document e lawyer_id document_type kwargs now w) = Inl x
       \<and> db (snd (draft_legal_document e lawyer_id document_type kwargs now w)) = db w
       \<and> log_orch (snd (draft_legal_document e lawyer_id document_type kwargs now w)) = log_orch w @
            [LInfo (''Drafting '' @ document_type @ '' for lawyer '' @ str_int lawyer_id),
             LError (''Document drafting failed: '' @ str_exn x)]"
proof (cases "drafting_method document_type")
  case None
  with gen show ?thesis
    by (simp add: draft_legal_document_def Let_def generated_by_def del: append.simps)
next
  case (Some m')
  have calls: "agent_calls (snd (draft_legal_document e lawyer_id document_type kwargs now w))
      = agent_calls w @ [(m', kwargs)]"
    using Some
    by (auto simp: draft_legal_document_def Let_def call_agent_def
        split: sum.splits prod.splits dest: insert_calls simp del: append.simps)
  with gen have ans: "agent e (length (agent_calls w)) m' kwargs = Inr answer"
    by (auto simp: generated_by_def)
  from Some ans write_raises_document [OF wr] show ?thesis
    by (simp add: draft_legal_document_def Let_def call_agent_def del: append.simps)
qed

lemma develop_litigation_strategy_write_fails:
  assumes gen: "generated_by e w (snd (develop_litigation_strategy e lawyer_id case_id kwargs w))
                  AnalyzeCaseStrategy d answer"
    and wr: "write_raises e ''analysis_results''
               (analysis_row ''litigation_strategy'' ''case'' (PInt case_id) lawyer_id answer) x"
  shows "fst (develop_litigation_strategy e lawyer_id case_id kwargs w) = Inl x
       \<and> db (snd (develop_litigation_strategy e lawyer_id case_id kwargs w)) = db w
       \<and> log_orch (snd (develop_litigation_strategy e lawyer_id case_id kwargs w)) = log_orch w @
            [LInfo (''Developing litigation strategy for case '' @ str_int case_id),
             LError (''Litigation strategy development failed: '' @ str_exn x)]"
proof (cases "get_case_by_id e (PInt case_id) w")
  case (Inl y)
  with gen show ?thesis
    by (simp add: develop_litigation_strategy_def Let_def generated_by_def del: append.simps)
next
  case c: (Inr case_opt)
  show ?thesis
  proof (cases case_opt)
    case None
    with c gen show ?thesis
      by (simp add: develop_litigation_strategy_def Let_def generated_by_def del: append.simps)
  next
    case sc: (Some c')
    show ?thesis
    proof (cases "get_lawyer_by_id e lawyer_id w")
      case (Inl y)
      with c sc gen show ?thesis
        by (simp add: develop_litigation_strategy_def Let_def generated_by_def del: append.simps)
    next
      case (Inr lawyer_opt)
      show ?thesis
      proof (cases lawyer_opt)
        case None
        with c sc Inr gen show ?thesis
          by (simp add: develop_litigation_strategy_def Let_def generated_by_def del: append.simps)
      next
        case (Some lawyer)
        have calls: "agent_calls (snd (develop_litigation_strategy e lawyer_id case_id kwargs w))
            = agent_calls w @ [(AnalyzeCaseStrategy, case_data_of kwargs c')]"
          using c sc Inr Some
          by (auto simp: develop_litigation_strategy_def Let_def call_agent_def
              split: sum.splits prod.splits dest: insert_calls simp del: append.simps)
        with gen have d: "case_data_of kwargs c' = d"
          and ans: "agent e (length (agent_calls w)) AnalyzeCaseStrategy d = Inr answer"
          by (simp_all add: generated_by_def)
        from c sc Inr Some d ans write_raises_analysis [OF wr] show ?thesis
          by (simp add: develop_litigation_strategy_def Let_def call_agent_def del: append.simps)
      qed
    qed
  qed
qed

text \<open>
  C1, amended. In each of the five task operations the persistence write is inside the
  \<open>try\<close> block. If the run made exactly one generation call, which returned its text,
  and the write that follows it raises, that is the insert of the row that the operation
  builds from this text into its table (for \<open>research_case_law\<close> the session row, whose
  name needs the first 50 characters of the legal issue), then the operation raises the
  error of the write to the caller instead of returning the text, stores nothing, and
  the last line of its log is the error under the operation's own prefix. Nothing is
  assumed of any other insert.
\<close>

theorem persistence_failure_is_raised:
  "(generated_by e w (snd (research_case_law e lawyer_id kwargs w)) ResearchPrecedents d answer
      \<and> slice_to 50 (dict_get d ''legal_issue'' (PStr ''Unknown'')) = Inr issue
      \<and> write_raises e ''research_sessions''
           (research_session_row e lawyer_id kwargs d issue answer) x
    \<longrightarrow> fst (research_case_law e lawyer_id kwargs w) = Inl x
      \<and> db (snd (research_case_law e lawyer_id kwargs w)) = db w
      \<and> last (log_orch (snd (research_case_law e lawyer_id kwargs w)))
          = LError (''Case law research failed: '' @ str_exn x))
   \<and> (generated_by e w (snd (analyze_contract e lawyer_id contract_id kwargs w))
          AnalyzeContract d answer
      \<and> write_raises e ''analysis_results''
           (analysis_row ''contract_analysis'' ''contract''
              (if truthy contract_id then contract_id else PInt 0) lawyer_id answer) x
    \<longrightarrow> fst (analyze_contract e lawyer_id contract_id kwargs w) = Inl x
      \<and> db (snd (analyze_contract e lawyer_id contract_id kwargs w)) = db w
      \<and> last (log_orch (snd (analyze_contract e lawyer_id contract_id kwargs w)))
          = LError (''Contract analysis failed: '' @ str_exn x))
   \<and> (generated_by e w (snd (assess_compliance e lawyer_id kwargs w)) AssessCompliance d answer
      \<and> write_raises e ''analysis_results''
           (analysis_row ''compliance_assessment'' ''organization'' (PInt 0) lawyer_id answer) x
    \<longrightarrow> fst (assess_compliance e lawyer_id kwargs w) = Inl x
      \<and> db (snd (assess_compliance e lawyer_id kwargs w)) = db w
      \<and> last (log_orch (snd (assess_compliance e lawyer_id kwargs w)))
          = LError (''Compliance assessment failed: '' @ str_exn x))
   \<and> (generated_by e w (snd (draft_legal_document e lawyer_id document_type kwargs now w)) m d answer
      \<and> write_raises e ''legal_documents''
           (document_row lawyer_id document_type kwargs now answer) x
    \<longrightarrow> fst (draft_legal_document e lawyer_id document_type kwargs now w) = Inl x
      \<and> db (snd (draft_legal_document e lawyer_id document_type kwargs now w)) = db w
      \<and> last (log_orch (snd (draft_legal_document e lawyer_id document_type kwargs now w)))
          = LError (''Document drafting failed: '' @ str_exn x))
   \<and> (generated_by e w (snd (develop_litigation_strategy e lawyer_id case_id kwargs w))
          AnalyzeCaseStrategy d answer
      \<and> write_raises e ''analysis_results''
           (analysis_row ''litigation_strategy'' ''case'' (PInt case_id) lawyer_id answer) x
    \<longrightarrow> fst (develop_litigation_strategy e lawyer_id case_id kwargs w) = Inl x
      \<and> db (snd (develop_litigation_strategy e lawyer_id case_id kwargs w)) = db w
      \<and> last (log_orch (snd (develop_litigation_strategy e lawyer_id case_id kwargs w)))
          = LError (''Litigation strategy development failed: '' @ str_exn x))"
proof -
  have l: "xs = ys @ [a, b] \<Longrightarrow> last xs = b" for xs ys :: "log_entry list" and a b
    by simp
  show ?thesis
    using research_case_law_write_fails [of e w lawyer_id kwargs d answer issue x]
      analyze_contract_write_fails [of e w lawyer_id contract_id kwargs d answer x]
      assess_compliance_write_fails [of e w lawyer_id kwargs d answer x]
      draft_legal_document_write_fails [of e w lawyer_id document_type kwargs now m d answer x]
      develop_litigation_strategy_write_fails [of e w lawyer_id case_id kwargs d answer x]
    by (blast intro: l)
qed

lemma locked_writes:
  "write_raises env_locked table data (Raise DatabaseError ''database is locked'')"
  by (simp add: write_raises_def env_locked_def)

lemma example_locked_calls:
  "agent_calls (snd (research_case_law env_locked 1 [(''legal_issue'', PStr ''breach of contract'')]
      example_world))
     = agent_calls example_world @ [(ResearchPrecedents,
         research_data_of [(''legal_issue'', PStr ''breach of contract'')] (hd (lawyers example_db)))]"
  "agent_calls (snd (analyze_contract env_locked 1 PNone [(''legal_issue'', PStr ''breach of contract'')]
      example_world))
     = agent_calls example_world @ [(AnalyzeContract, [(''legal_issue'', PStr ''breach of contract'')])]"
  "agent_calls (snd (assess_compliance env_locked 1 [(''legal_issue'', PStr ''breach of contract'')]
      example_world))
     = agent_calls example_world @ [(AssessCompliance,
         compliance_data_of [(''legal_issue'', PStr ''breach of contract'')] (hd (lawyers example_db)))]"
  "agent_calls (snd (draft_legal_document env_locked 1 ''memo'' [(''legal_issue'', PStr ''breach of contract'')]
      clock_a example_world))
     = agent_calls example_world @ [(DraftLegalMemo, [(''legal_issue'', PStr ''breach of contract'')])]"
  "agent_calls (snd (develop_litigation_strategy env_locked 1 1 [(''legal_issue'', PStr ''breach of contract'')]
      example_world))
     = agent_calls example_world @ [(AnalyzeCaseStrategy,
         case_data_of [(''legal_issue'', PStr ''breach of contract'')] (hd (cases example_db)))]"
proof -
  have lawyer: "get_lawyer_by_id env_locked 1 w = Inr (Some (hd (lawyers example_db)))"
    if "lawyers (db w) = lawyers example_db" for w
    using that by (simp add: get_lawyer_by_id_def select_where_def first_row_def env_locked_def example_db_def)
  have cas: "get_case_by_id env_locked (PInt 1) w = Inr (Some (hd (cases example_db)))"
    if "cases (db w) = cases example_db" for w
    using that by (simp add: get_case_by_id_def select_where_def first_row_def env_locked_def example_db_def)
  have ag: "agent env_locked n m d = Inr ''generated text''" for n m d
    by (simp add: env_locked_def)
  note ins = write_raises_insert [OF locked_writes] write_raises_analysis [OF locked_writes]
    write_raises_document [OF locked_writes]
  have li: "dict_get (research_data_of [(''legal_issue'', PStr ''breach of contract'')] r) ''legal_issue'' v
      = PStr ''breach of contract''" for r v
    by (simp add: research_data_of_def dict_get_def)
  show "agent_calls (snd (research_case_law env_locked 1 [(''legal_issue'', PStr ''breach of contract'')]
      example_world))
     = agent_calls example_world @ [(ResearchPrecedents,
         research_data_of [(''legal_issue'', PStr ''breach of contract'')] (hd (lawyers example_db)))]"
    by (simp add: research_case_law_def research_case_facts_def call_agent_def Let_def lawyer ag ins li
        example_world_def)
  show "agent_calls (snd (analyze_contract env_locked 1 PNone [(''legal_issue'', PStr ''breach of contract'')]
      example_world))
     = agent_calls example_world @ [(AnalyzeContract, [(''legal_issue'', PStr ''breach of contract'')])]"
    by (simp add: analyze_contract_def contract_data_of_def call_agent_def Let_def ag ins)
  show "agent_calls (snd (assess_compliance env_locked 1 [(''legal_issue'', PStr ''breach of contract'')]
      example_world))
     = agent_calls example_world @ [(AssessCompliance,
         compliance_data_of [(''legal_issue'', PStr ''breach of contract'')] (hd (lawyers example_db)))]"
    by (simp add: assess_compliance_def call_agent_def Let_def lawyer ag ins example_world_def)
  show "agent_calls (snd (draft_legal_document env_locked 1 ''memo'' [(''legal_issue'', PStr ''breach of contract'')]
      clock_a example_world))
     = agent_calls example_world @ [(DraftLegalMemo, [(''legal_issue'', PStr ''breach of contract'')])]"
    by (simp add: draft_legal_document_def drafting_method_def call_agent_def Let_def ag ins)
  show "agent_calls (snd (develop_litigation_strategy env_locked 1 1 [(''legal_issue'', PStr ''breach of contract'')]
      example_world))
     = agent_calls example_world @ [(AnalyzeCaseStrategy,
         case_data_of [(''legal_issue'', PStr ''breach of contract'')] (hd (cases example_db)))]"
    by (simp add: develop_litigation_strategy_def call_agent_def Let_def lawyer cas ag ins example_world_def)
qed

lemma generated_by_locked:
  assumes "agent_calls w' = agent_calls w @ [(m, d)]"
  shows "generated_by env_locked w w' m d ''generated text''"
  using assms by (simp add: generated_by_def env_locked_def)

lemma example_fk:
  "generated_by env_fk example_world
     (snd (analyze_contract env_fk 99 PNone [(''contract_text'', PStr ''The parties agree'')] example_world))
     AnalyzeContract [(''contract_text'', PStr ''The parties agree'')] ''generated text''"
  "write_raises env_fk ''analysis_results''
     (analysis_row ''contract_analysis'' ''contract'' (PInt 0) 99 ''generated text'')
     (Raise DatabaseError ''FOREIGN KEY constraint failed'')"
  "sql_error env_fk (Insert ''analysis_results''
     (analysis_row ''contract_analysis'' ''contract'' (PInt 0) 1 ''generated text'')) = None"
proof -
  show wr: "write_raises env_fk ''analysis_results''
     (analysis_row ''contract_analysis'' ''contract'' (PInt 0) 99 ''generated text'')
     (Raise DatabaseError ''FOREIGN KEY constraint failed'')"
    by (simp add: write_raises_def env_fk_def analysis_row_def)
  have ag: "agent env_fk n m d = Inr ''generated text''" for n m d
    by (simp add: env_fk_def)
  from write_raises_analysis [OF wr]
  show "generated_by env_fk example_world
     (snd (analyze_contract env_fk 99 PNone [(''contract_text'', PStr ''The parties agree'')] example_world))
     AnalyzeContract [(''contract_text'', PStr ''The parties agree'')] ''generated text''"
    by (simp add: generated_by_def analyze_contract_def contract_data_of_def call_agent_def Let_def ag)
  show "sql_error env_fk (Insert ''analysis_results''
     (analysis_row ''contract_analysis'' ''contract'' (PInt 0) 1 ''generated text'')) = None"
    by (simp add: env_fk_def analysis_row_def)
qed

theorem persistence_failure_is_raised_witness:
  "fst (research_case_law env_locked 1 [(''legal_issue'', PStr ''breach of contract'')] example_world)
       = Inl (Raise DatabaseError ''database is locked'')
   \<and> fst (analyze_contract env_locked 1 PNone [(''legal_issue'', PStr ''breach of contract'')] example_world)
       = Inl (Raise DatabaseError ''database is locked'')
   \<and> fst (assess_compliance env_locked 1 [(''legal_issue'', PStr ''breach of contract'')] example_world)
       = Inl (Raise DatabaseError ''database is locked'')
   \<and> fst (draft_legal_document env_locked 1 ''memo'' [(''legal_issue'', PStr ''breach of contract'')]
        clock_a example_world)
       = Inl (Raise DatabaseError ''database is locked'')
   \<and> fst (develop_litigation_strategy env_locked 1 1 [(''legal_issue'', PStr ''breach of contract'')]
        example_world)
       = Inl (Raise DatabaseError ''database is locked'')
   \<and> generated_by env_fk example_world
        (snd (analyze_contract env_fk 99 PNone [(''contract_text'', PStr ''The parties agree'')] example_world))
        AnalyzeContract [(''contract_text'', PStr ''The parties agree'')] ''generated text''
   \<and> write_raises env_fk ''analysis_results''
        (analysis_row ''contract_analysis'' ''contract'' (PInt 0) 99 ''generated text'')
        (Raise DatabaseError ''FOREIGN KEY constraint failed'')
   \<and> sql_error env_fk (Insert ''analysis_results''
        (analysis_row ''contract_analysis'' ''contract'' (PInt 0) 1 ''generated text'')) = None
   \<and> fst (analyze_contract env_fk 99 PNone [(''contract_text'', PStr ''The parties agree'')] example_world)
       = Inl (Raise DatabaseError ''FOREIGN KEY constraint failed'')"
proof -
  note g = example_locked_calls [THEN generated_by_locked]
  note w = locked_writes
  have sl: "slice_to 50 (dict_get (research_data_of [(''legal_issue'', PStr ''breach of contract'')]
        (hd (lawyers example_db))) ''legal_issue'' (PStr ''Unknown''))
      = Inr (PStr ''breach of contract'')"
    by (simp add: research_data_of_def dict_get_def)
  have fk: "write_raises env_fk ''analysis_results''
        (analysis_row ''contract_analysis'' ''contract'' (if truthy PNone then PNone else PInt 0) 99
           ''generated text'')
        (Raise DatabaseError ''FOREIGN KEY constraint failed'')"
    using example_fk(2) by simp
  from persistence_failure_is_raised [where e = env_locked and w = example_world and lawyer_id = 1
      and kwargs = "[(''legal_issue'', PStr ''breach of contract'')]"
      and d = "research_data_of [(''legal_issue'', PStr ''breach of contract'')] (hd (lawyers example_db))"
      and answer = "''generated text''" and issue = "PStr ''breach of contract''"
      and x = "Raise DatabaseError ''database is locked''"] g(1) sl w
  have r1: "fst (research_case_law env_locked 1 [(''legal_issue'', PStr ''breach of contract'')] example_world)
       = Inl (Raise DatabaseError ''database is locked'')" by blast
  from persistence_failure_is_raised [where e = env_locked and w = example_world and lawyer_id = 1
      and kwargs = "[(''legal_issue'', PStr ''breach of contract'')]" and contract_id = PNone
      and d = "[(''legal_issue'', PStr ''breach of contract'')]"
      and answer = "''generated text''"
      and x = "Raise DatabaseError ''database is locked''"] g(2) w
  have r2: "fst (analyze_contract env_locked 1 PNone [(''legal_issue'', PStr ''breach of contract'')] example_world)
       = Inl (Raise DatabaseError ''database is locked'')" by blast
  from persistence_failure_is_raised [where e = env_locked and w = example_world and lawyer_id = 1
      and kwargs = "[(''legal_issue'', PStr ''breach of contract'')]"
      and d = "compliance_data_of [(''legal_issue'', PStr ''breach of contract'')] (hd (lawyers example_db))"
      and answer = "''generated text''"
      and x = "Raise DatabaseError ''database is locked''"] g(3) w
  have r3: "fst (assess_compliance env_locked 1 [(''legal_issue'', PStr ''breach of contract'')] example_world)
       = Inl (Raise DatabaseError ''database is locked'')" by blast
  from persistence_failure_is_raised [where e = env_locked and w = example_world and lawyer_id = 1
      and kwargs = "[(''legal_issue'', PStr ''breach of contract'')]" and document_type = "''memo''"
      and now = clock_a and m = DraftLegalMemo
      and d = "[(''legal_issue'', PStr ''breach of contract'')]"
      and answer = "''generated text''"
      and x = "Raise DatabaseError ''database is locked''"] g(4) w
  have r4: "fst (draft_legal_document env_locked 1 ''memo'' [(''legal_issue'', PStr ''breach of contract'')]
        clock_a example_world) = Inl (Raise DatabaseError ''database is locked'')" by blast
  from persistence_failure_is_raised [where e = env_locked and w = example_world and lawyer_id = 1
      and kwargs = "[(''legal_issue'', PStr ''breach of contract'')]" and case_id = 1
      and d = "case_data_of [(''legal_issue'', PStr ''breach of contract'')] (hd (cases example_db))"
      and answer = "''generated text''"
      and x = "Raise DatabaseError ''database is locked''"] g(5) w
  have r5: "fst (develop_litigation_strategy env_locked 1 1 [(''legal_issue'', PStr ''breach of contract'')]
        example_world) = Inl (Raise DatabaseError ''database is locked'')" by blast
  from persistence_failure_is_raised [where e = env_fk and w = example_world and lawyer_id = 99
      and kwargs = "[(''contract_text'', PStr ''The parties agree'')]" and contract_id = PNone
      and d = "[(''contract_text'', PStr ''The parties agree'')]"
      and answer = "''generated text''"
      and x = "Raise DatabaseError ''FOREIGN KEY constraint failed''"] example_fk(1) fk
  have r6: "fst (analyze_contract env_fk 99 PNone [(''contract_text'', PStr ''The parties agree'')] example_world)
       = Inl (Raise DatabaseError ''FOREIGN KEY constraint failed'')" by blast
  from r1 r2 r3 r4 r5 r6 example_fk show ?thesis by blast
qed


section \<open>Ordering of documents\<close>

lemma str_less_asym: "str_less s t \<Longrightarrow> \<not> str_less t s"
  by (induction s t rule: str_less.induct) auto

lemma str_less_trans: "str_less s t \<Longrightarrow> str_less t u \<Longrightarrow> str_less s u"
proof (induction s t arbitrary: u rule: str_less.induct)
  case 1
  then show ?case by simp
next
  case (2 d ds)
  then show ?case by (cases u) auto
next
  case (3 c cs)
  then show ?case by simp
next
  case (4 c cs d ds)
  then show ?case by (cases u) (auto split: if_splits)
qed

lemma sql_less_asym: "sql_less a b \<Longrightarrow> \<not> sql_less b a"
  by (induction a b rule: sql_less.induct) (auto dest: str_less_asym)

lemma sql_less_trans: "sql_less a b \<Longrightarrow> sql_less b c \<Longrightarrow> sql_less a c"
  by (cases a; cases b; cases c) (auto dest: str_less_trans)

lemma set_insert_desc: "set (insert_desc c x rows) = insert x (set rows)"
  by (induction rows) auto

lemma mset_insert_desc: "mset (insert_desc c x rows) = add_mset x (mset rows)"
  by (induction rows) auto

lemma descending_insert_desc:
  assumes "descending c rows"
  shows "descending c (insert_desc c x rows)"
  using assms
proof (induction rows)
  case Nil
  then show ?case by (simp add: descending_def)
next
  case (Cons y ys)
  show ?case
  proof (cases "sql_less (row_get y c) (row_get x c)")
    case True
    have "\<not> sql_less (row_get x c) (row_get z c)" if "z \<in> set (y # ys)" for z
    proof
      assume xz: "sql_less (row_get x c) (row_get z c)"
      from sql_less_trans [OF True xz] have "sql_less (row_get y c) (row_get z c)" .
      moreover from that Cons.prems have "z = y \<or> \<not> sql_less (row_get y c) (row_get z c)"
        by (auto simp: descending_def)
      ultimately show False using sql_less_asym [of "row_get y c" "row_get y c"] by auto
    qed
    with True Cons.prems show ?thesis by (simp add: descending_def)
  next
    case False
    from Cons.prems have "descending c ys" by (simp add: descending_def)
    from Cons.IH [OF this] False Cons.prems show ?thesis
      by (auto simp: descending_def set_insert_desc)
  qed
qed

lemma order_by_desc_fold:
  "descending c acc \<Longrightarrow>
     descending c (foldl (\<lambda>sorted r. insert_desc c r sorted) acc rows)
   \<and> mset (foldl (\<lambda>sorted r. insert_desc c r sorted) acc rows) = mset acc + mset rows"
  by (induction rows arbitrary: acc) (simp_all add: descending_insert_desc mset_insert_desc)

lemma order_by_desc_sorted:
  "descending c (order_by_desc c rows)" "mset (order_by_desc c rows) = mset rows"
  using order_by_desc_fold [of c "[]" rows] by (simp_all add: order_by_desc_def descending_def)

lemma documents_of_sorted:
  assumes "sql_error e (Select ''legal_documents'' (PInt case_id)) = None"
  shows "descending ''creation_date'' (documents_of e case_id w)
       \<and> mset (documents_of e case_id w)
           = mset (filter (\<lambda>r. map_of r ''case_id'' = Some (PInt case_id)) (legal_documents (db w)))"
  using assms
  by (simp add: documents_of_def get_case_documents_def select_where_def order_by_desc_sorted)


section \<open>Orchestrator: the calls of a run\<close>

lemma insert_documents:
  "add_research_session e data w = Inr (i, w') \<Longrightarrow> legal_documents (db w') = legal_documents (db w)"
  "save_analysis_result e data w = Inr (i, w') \<Longrightarrow> legal_documents (db w') = legal_documents (db w)"
  by (auto simp: add_research_session_def save_analysis_result_def split: sum.splits)

lemma research_case_law_calls:
  "legal_documents (db (snd (research_case_law e lawyer_id kwargs w))) = legal_documents (db w)
   \<and> (\<exists>cs. agent_calls (snd (research_case_law e lawyer_id kwargs w)) = agent_calls w @ cs
         \<and> (\<forall>call \<in> set cs. fst call \<noteq> AnalyzeContract))"
proof (cases "get_lawyer_by_id e lawyer_id w")
  case (Inl y)
  then show ?thesis by (simp add: research_case_law_def Let_def)
next
  case (Inr lawyer_opt)
  show ?thesis
  proof (cases lawyer_opt)
    case None
    with Inr show ?thesis by (simp add: research_case_law_def Let_def)
  next
    case (Some lawyer)
    show ?thesis
    proof (cases "research_case_facts e kwargs (research_data_of kwargs lawyer) w")
      case (Inl y)
      with Inr Some show ?thesis by (simp add: research_case_law_def Let_def)
    next
      case rd: (Inr research_data)
      have "legal_documents (db (snd (research_case_law e lawyer_id kwargs w))) = legal_documents (db w)"
        and "agent_calls (snd (research_case_law e lawyer_id kwargs w))
          = agent_calls w @ [(ResearchPrecedents, research_data)]"
        using Inr Some rd
        by (auto simp: research_case_law_def Let_def call_agent_def
            split: sum.splits prod.splits dest: insert_calls insert_documents simp del: append.simps)
      then show ?thesis by simp
    qed
  qed
qed

lemma develop_litigation_strategy_calls:
  "legal_documents (db (snd (develop_litigation_strategy e lawyer_id case_id kwargs w)))
     = legal_documents (db w)
   \<and> (\<exists>cs. agent_calls (snd (develop_litigation_strategy e lawyer_id case_id kwargs w))
           = agent_calls w @ cs
         \<and> (\<forall>call \<in> set cs. fst call \<noteq> AnalyzeContract))"
proof (cases "get_case_by_id e (PInt case_id) w")
  case (Inl y)
  then show ?thesis by (simp add: develop_litigation_strategy_def Let_def)
next
  case c: (Inr case_opt)
  show ?thesis
  proof (cases case_opt)
    case None
    with c show ?thesis by (simp add: develop_litigation_strategy_def Let_def)
  next
    case sc: (Some c')
    show ?thesis
    proof (cases "get_lawyer_by_id e lawyer_id w")
      case (Inl y)
      with c sc show ?thesis by (simp add: develop_litigation_strategy_def Let_def)
    next
      case (Inr lawyer_opt)
      show ?thesis
      proof (cases lawyer_opt)
        case None
        with c sc Inr show ?thesis by (simp add: develop_litigation_strategy_def Let_def)
      next
        case (Some lawyer)
        have "legal_documents (db (snd (develop_litigation_strategy e lawyer_id case_id kwargs w)))
            = legal_documents (db w)"
          and "agent_calls (snd (develop_litigation_strategy e lawyer_id case_id kwargs w))
            = agent_calls w @ [(AnalyzeCaseStrategy, case_data_of kwargs c')]"
          using c sc Inr Some
          by (auto simp: develop_litigation_strategy_def Let_def call_agent_def
              split: sum.splits prod.splits dest: insert_calls insert_documents simp del: append.simps)
        then show ?thesis by simp
      qed
    qed
  qed
qed

lemma analyze_contract_calls:
  "legal_documents (db (snd (analyze_contract e lawyer_id contract_id kwargs w))) = legal_documents (db w)
   \<and> (agent_calls (snd (analyze_contract e lawyer_id contract_id kwargs w)) = agent_calls w
      \<or> (\<exists>d. contract_data_of e contract_id kwargs w = Inr d
            \<and> agent_calls (snd (analyze_contract e lawyer_id contract_id kwargs w))
                = agent_calls w @ [(AnalyzeContract, d)]))"
proof (cases "contract_data_of e contract_id kwargs w")
  case (Inl y)
  then show ?thesis by (simp add: analyze_contract_def Let_def)
next
  case cd: (Inr d)
  have "legal_documents (db (snd (analyze_contract e lawyer_id contract_id kwargs w))) = legal_documents (db w)"
    and "agent_calls (snd (analyze_contract e lawyer_id contract_id kwargs w))
      = agent_calls w @ [(AnalyzeContract, d)]"
    using cd
    by (auto simp: analyze_contract_def Let_def call_agent_def
        split: sum.splits prod.splits dest: insert_calls insert_documents simp del: append.simps)
  with cd show ?thesis by simp
qed

lemma analyze_documents_calls:
  assumes "analyze_documents e lawyer_id docs acc w = (r, w')"
  shows "legal_documents (db w') = legal_documents (db w)
       \<and> (\<exists>calls n. agent_calls w' = agent_calls w @ calls
             \<and> list_all2 (analyzes e w) calls (take n (filter is_contract_document docs)))"
  using assms
proof (induction docs arbitrary: acc w)
  case Nil
  then show ?case by simp
next
  case (Cons doc docs)
  show ?case
  proof (cases "is_contract_document doc")
    case False
    with Cons.prems have "analyze_documents e lawyer_id docs acc w = (r, w')" by simp
    from Cons.IH [OF this] False show ?thesis by simp
  next
    case True
    obtain r1 w1 where ac: "analyze_contract e lawyer_id (row_get doc ''id'') [] w = (r1, w1)"
      by (cases "analyze_contract e lawyer_id (row_get doc ''id'') [] w")
    from analyze_contract_calls [of e lawyer_id "row_get doc ''id''" "[]" w] ac
    have docs1: "legal_documents (db w1) = legal_documents (db w)"
      and calls1: "agent_calls w1 = agent_calls w
        \<or> (\<exists>d. contract_data_of e (row_get doc ''id'') [] w = Inr d
              \<and> agent_calls w1 = agent_calls w @ [(AnalyzeContract, d)])"
      by simp_all
    from calls1 obtain cs1 where cs1: "agent_calls w1 = agent_calls w @ cs1"
      and one: "cs1 = [] \<or> (\<exists>d. cs1 = [(AnalyzeContract, d)] \<and> analyzes e w (AnalyzeContract, d) doc)"
      by (auto simp: analyzes_def)
    show ?thesis
    proof (cases r1)
      case (Inl y)
      with True ac Cons.prems have w': "w' = w1" by simp
      from one show ?thesis
      proof
        assume "cs1 = []"
        with cs1 w' docs1 show ?thesis by (auto intro: exI [of _ 0])
      next
        assume "\<exists>d. cs1 = [(AnalyzeContract, d)] \<and> analyzes e w (AnalyzeContract, d) doc"
        then obtain d where "cs1 = [(AnalyzeContract, d)]" "analyzes e w (AnalyzeContract, d) doc"
          by blast
        with cs1 w' docs1 True show ?thesis
          by (intro conjI exI [of _ "[(AnalyzeContract, d)]"] exI [of _ "Suc 0"]) simp_all
      qed
    next
      case (Inr analysis)
      with True ac Cons.prems
      have rest: "analyze_documents e lawyer_id docs (acc @ [analysis]) w1 = (r, w')" by simp
      from ac Inr have "fst (analyze_contract e lawyer_id (row_get doc ''id'') [] w) = Inr analysis"
        by simp
      from analyze_contract_success [OF this] ac
      obtain d where d: "contract_data_of e (row_get doc ''id'') [] w = Inr d"
        and c1: "agent_calls w1 = agent_calls w @ [(AnalyzeContract, d)]"
        by auto
      from Cons.IH [OF rest] obtain calls n where
        a: "legal_documents (db w') = legal_documents (db w1)"
        and c: "agent_calls w' = agent_calls w1 @ calls"
        and l: "list_all2 (analyzes e w1) calls (take n (filter is_contract_document docs))"
        by auto
      from l analyzes_db [OF docs1, of e]
      have l': "list_all2 (analyzes e w) calls (take n (filter is_contract_document docs))" by simp
      have "analyzes e w (AnalyzeContract, d) doc" using d by (simp add: analyzes_def)
      with l' True have "list_all2 (analyzes e w) ((AnalyzeContract, d) # calls)
          (take (Suc n) (filter is_contract_document (doc # docs)))" by simp
      moreover have "agent_calls w' = agent_calls w @ ((AnalyzeContract, d) # calls)"
        using c c1 by simp
      moreover have "legal_documents (db w') = legal_documents (db w)"
        using a docs1 by simp
      ultimately show ?thesis by blast
    qed
  qed
qed

lemma contract_calls_append:
  assumes "agent_calls w' = agent_calls w @ cs"
  shows "contract_calls w w' = filter (\<lambda>call. fst call = AnalyzeContract) cs"
  using assms by (simp add: contract_calls_def)

lemma analyzes_filter:
  assumes "list_all2 (analyzes e w) calls docs"
  shows "filter (\<lambda>call. fst call = AnalyzeContract) calls = calls"
  using assms by (induction rule: list_all2_induct) (simp_all add: analyzes_def)

lemma no_contract_calls:
  assumes "\<forall>call \<in> set cs. fst call \<noteq> AnalyzeContract"
  shows "filter (\<lambda>call. fst call = AnalyzeContract) cs = []"
  using assms by (induction cs) auto

lemma try_log_parts [simp]:
  "fst (try_log p res) = fst res"
  "agent_calls (snd (try_log p res)) = agent_calls (snd res)"
  by (cases res; cases "fst res"; simp)+

lemma comprehensive_success:
  assumes ok: "fst (comprehensive_case_analysis e lawyer_id case_id w) = Inr res"
  shows "\<exists>docs d1 d2 calls.
           get_case_documents e case_id w = Inr docs
         \<and> agent_calls (snd (comprehensive_case_analysis e lawyer_id case_id w))
             = agent_calls w @ (ResearchPrecedents, d1) # (AnalyzeCaseStrategy, d2) # calls
         \<and> list_all2 (analyzes e w) calls (filter is_contract_document (take 3 docs))
         \<and> (docs = [] \<longrightarrow> document_analyses res = None)
         \<and> (docs \<noteq> [] \<longrightarrow>
              (\<exists>analyses. document_analyses res = Some analyses
                 \<and> length analyses = length (filter is_contract_document (take 3 docs))))"
proof (cases "get_case_by_id e (PInt case_id) w")
  case (Inl y)
  with ok show ?thesis by (simp add: comprehensive_case_analysis_def Let_def)
next
  case c: (Inr case_opt)
  show ?thesis
  proof (cases case_opt)
    case None
    with c ok show ?thesis by (simp add: comprehensive_case_analysis_def Let_def)
  next
    case sc: (Some c')
    let ?w0 = "info (''Starting comprehensive analysis for case '' @ str_int case_id) w"
    let ?wa = "info ''Running case law research...'' ?w0"
    obtain r1 w1 where rs: "research_case_law e lawyer_id (research_kwargs_of case_id c') ?wa = (r1, w1)"
      by (cases "research_case_law e lawyer_id (research_kwargs_of case_id c') ?wa")
    show ?thesis
    proof (cases r1)
      case (Inl y)
      with c sc rs ok show ?thesis by (simp add: comprehensive_case_analysis_def Let_def)
    next
      case r1: (Inr research)
      from rs r1 have "fst (research_case_law e lawyer_id (research_kwargs_of case_id c') ?wa) = Inr research"
        by simp
      from research_case_law_success [OF this] rs
      obtain d1 where calls1: "agent_calls w1 = agent_calls w @ [(ResearchPrecedents, d1)]"
        and docs1: "legal_documents (db w1) = legal_documents (db w)"
        by auto
      let ?wb = "info ''Developing litigation strategy...'' w1"
      obtain r2 w2 where ls: "develop_litigation_strategy e lawyer_id case_id [] ?wb = (r2, w2)"
        by (cases "develop_litigation_strategy e lawyer_id case_id [] ?wb")
      show ?thesis
      proof (cases r2)
        case (Inl y)
        with c sc rs r1 ls ok show ?thesis by (simp add: comprehensive_case_analysis_def Let_def)
      next
        case r2: (Inr strategy)
        from ls r2 have "fst (develop_litigation_strategy e lawyer_id case_id [] ?wb) = Inr strategy"
          by simp
        from develop_litigation_strategy_success [OF this] ls
        obtain d2 where calls2': "agent_calls w2 = agent_calls ?wb @ [(AnalyzeCaseStrategy, d2)]"
          and docs2': "legal_documents (db w2) = legal_documents (db ?wb)"
          by auto
        from calls2' calls1
        have calls2: "agent_calls w2 = agent_calls w @ [(ResearchPrecedents, d1), (AnalyzeCaseStrategy, d2)]"
          by simp
        from docs2' docs1 have docs2: "legal_documents (db w2) = legal_documents (db w)" by simp
        note gd = get_case_documents_db [OF docs2, of e case_id]
        show ?thesis
        proof (cases "get_case_documents e case_id w")
          case (Inl y)
          with c sc rs r1 ls r2 gd ok show ?thesis
            by (simp add: comprehensive_case_analysis_def Let_def)
        next
          case dl: (Inr docs)
          show ?thesis
          proof (cases "docs = []")
            case True
            with c sc rs r1 ls r2 gd dl ok calls2 show ?thesis
              by (auto simp: comprehensive_case_analysis_def Let_def)
          next
            case ne: False
            let ?wc = "info ''Analyzing case documents...'' w2"
            obtain r3 w3 where ad: "analyze_documents e lawyer_id (take 3 docs) [] ?wc = (r3, w3)"
              by (cases "analyze_documents e lawyer_id (take 3 docs) [] ?wc")
            show ?thesis
            proof (cases r3)
              case (Inl y)
              with c sc rs r1 ls r2 gd dl ne ad ok show ?thesis
                by (simp add: comprehensive_case_analysis_def Let_def)
            next
              case r3: (Inr analyses)
              from analyze_documents_success [OF ad [unfolded r3]]
              obtain calls where len: "length analyses = length (filter is_contract_document (take 3 docs))"
                and calls3: "agent_calls w3 = agent_calls ?wc @ calls"
                and all: "list_all2 (analyzes e ?wc) calls (filter is_contract_document (take 3 docs))"
                by auto
              have "legal_documents (db ?wc) = legal_documents (db w)" using docs2 by simp
              from all analyzes_db [OF this, of e]
              have all': "list_all2 (analyzes e w) calls (filter is_contract_document (take 3 docs))"
                by simp
              from c sc rs r1 ls r2 gd dl ne ad r3 ok
              have res: "res = \<lparr>case_law_research = research, litigation_strategy = strategy,
                               document_analyses = Some analyses\<rparr>"
                and w': "agent_calls (snd (comprehensive_case_analysis e lawyer_id case_id w)) = agent_calls w3"
                by (simp_all add: comprehensive_case_analysis_def Let_def)
              from calls3 calls2 w'
              have "agent_calls (snd (comprehensive_case_analysis e lawyer_id case_id w))
                      = agent_calls w @ (ResearchPrecedents, d1) # (AnalyzeCaseStrategy, d2) # calls"
                by simp
              with dl all' len res ne show ?thesis by auto
            qed
          qed
        qed
      qed
    qed
  qed
qed

lemma documents_of_eq:
  "get_case_documents e case_id w = Inr docs \<Longrightarrow> documents_of e case_id w = docs"
  "get_case_documents e case_id w = Inl x \<Longrightarrow> documents_of e case_id w = []"
  by (simp_all add: documents_of_def)

lemma comprehensive_prefix:
  "\<exists>n. list_all2 (analyzes e w)
          (contract_calls w (snd (comprehensive_case_analysis e lawyer_id case_id w)))
          (take n (filter is_contract_document (take 3 (documents_of e case_id w))))"
proof -
  let ?R = "comprehensive_case_analysis e lawyer_id case_id w"
  let ?todo = "filter is_contract_document (take 3 (documents_of e case_id w))"
  have none: ?thesis if "agent_calls (snd ?R) = agent_calls w @ cs"
    and "\<forall>call \<in> set cs. fst call \<noteq> AnalyzeContract" for cs
  proof -
    from contract_calls_append [OF that(1)] no_contract_calls [OF that(2)]
    have "contract_calls w (snd ?R) = []" by simp
    then show ?thesis by (auto intro: exI [of _ 0])
  qed
  show ?thesis
  proof (cases "get_case_by_id e (PInt case_id) w")
    case (Inl y)
    then have "agent_calls (snd ?R) = agent_calls w @ []"
      by (simp add: comprehensive_case_analysis_def Let_def)
    then show ?thesis by (rule none) simp
  next
    case c: (Inr case_opt)
    show ?thesis
    proof (cases case_opt)
      case None
      with c have "agent_calls (snd ?R) = agent_calls w @ []"
        by (simp add: comprehensive_case_analysis_def Let_def)
      then show ?thesis by (rule none) simp
    next
      case sc: (Some c')
      let ?w0 = "info (''Starting comprehensive analysis for case '' @ str_int case_id) w"
      let ?wa = "info ''Running case law research...'' ?w0"
      obtain r1 w1 where rs: "research_case_law e lawyer_id (research_kwargs_of case_id c') ?wa = (r1, w1)"
        by (cases "research_case_law e lawyer_id (research_kwargs_of case_id c') ?wa")
      from research_case_law_calls [of e lawyer_id "research_kwargs_of case_id c'" ?wa] rs
      obtain cs1 where docs1: "legal_documents (db w1) = legal_documents (db w)"
        and calls1: "agent_calls w1 = agent_calls w @ cs1"
        and no1: "\<forall>call \<in> set cs1. fst call \<noteq> AnalyzeContract"
        by auto
      show ?thesis
      proof (cases r1)
        case (Inl y)
        with c sc rs calls1 have "agent_calls (snd ?R) = agent_calls w @ cs1"
          by (simp add: comprehensive_case_analysis_def Let_def)
        then show ?thesis using no1 by (rule none)
      next
        case r1: (Inr research)
        let ?wb = "info ''Developing litigation strategy...'' w1"
        obtain r2 w2 where ls: "develop_litigation_strategy e lawyer_id case_id [] ?wb = (r2, w2)"
          by (cases "develop_litigation_strategy e lawyer_id case_id [] ?wb")
        from develop_litigation_strategy_calls [of e lawyer_id case_id "[]" ?wb] ls
        obtain cs where docs2': "legal_documents (db w2) = legal_documents (db ?wb)"
          and calls2': "agent_calls w2 = agent_calls ?wb @ cs"
          and no2': "\<forall>call \<in> set cs. fst call \<noteq> AnalyzeContract"
          by auto
        define cs2 where "cs2 = cs1 @ cs"
        have docs2: "legal_documents (db w2) = legal_documents (db w)"
          using docs2' docs1 by simp
        have calls2: "agent_calls w2 = agent_calls w @ cs2"
          using calls2' calls1 by (simp add: cs2_def)
        have no2: "\<forall>call \<in> set cs2. fst call \<noteq> AnalyzeContract"
          using no1 no2' by (auto simp: cs2_def)
        note gd = get_case_documents_db [OF docs2, of e case_id]
        show ?thesis
        proof (cases r2)
          case (Inl y)
          with c sc rs r1 ls calls2 have "agent_calls (snd ?R) = agent_calls w @ cs2"
            by (simp add: comprehensive_case_analysis_def Let_def)
          then show ?thesis using no2 by (rule none)
        next
          case r2: (Inr strategy)
          show ?thesis
          proof (cases "get_case_documents e case_id w")
            case (Inl y)
            with c sc rs r1 ls r2 gd calls2 have "agent_calls (snd ?R) = agent_calls w @ cs2"
              by (simp add: comprehensive_case_analysis_def Let_def)
            then show ?thesis using no2 by (rule none)
          next
            case dl: (Inr docs)
            show ?thesis
            proof (cases "docs = []")
              case True
              with c sc rs r1 ls r2 gd dl calls2 have "agent_calls (snd ?R) = agent_calls w @ cs2"
                by (simp add: comprehensive_case_analysis_def Let_def)
              then show ?thesis using no2 by (rule none)
            next
              case ne: False
              let ?wc = "info ''Analyzing case documents...'' w2"
              obtain r3 w3 where ad: "analyze_documents e lawyer_id (take 3 docs) [] ?wc = (r3, w3)"
                by (cases "analyze_documents e lawyer_id (take 3 docs) [] ?wc")
              from analyze_documents_calls [OF ad]
              obtain calls n where calls3: "agent_calls w3 = agent_calls ?wc @ calls"
                and all: "list_all2 (analyzes e ?wc) calls (take n (filter is_contract_document (take 3 docs)))"
                by auto
              have "legal_documents (db ?wc) = legal_documents (db w)" using docs2 by simp
              from all analyzes_db [OF this, of e]
              have all': "list_all2 (analyzes e w) calls (take n (filter is_contract_document (take 3 docs)))"
                by simp
              have "agent_calls (snd ?R) = agent_calls w3"
                using c sc rs r1 ls r2 gd dl ne ad
                by (cases r3) (simp_all add: comprehensive_case_analysis_def Let_def)
              with calls3 calls2 have "agent_calls (snd ?R) = agent_calls w @ (cs2 @ calls)" by simp
              from contract_calls_append [OF this] no_contract_calls [OF no2] analyzes_filter [OF all']
              have "contract_calls w (snd ?R) = calls" by simp
              with all' documents_of_eq(1) [OF dl] show ?thesis by auto
            qed
          qed
        qed
      qed
    qed
  qed
qed

text \<open>
  C6, amended. The contract-analysis step of a comprehensive analysis runs over the
  contract-type documents among the first three documents that \<open>get_case_documents\<close>
  returns for the case. In every run, whatever its outcome, the calls of the contract
  agent are calls for a leading part of these documents, in their order, one call each.
  In a run that succeeds they are calls for all of them, they follow one research call
  and one strategy call and nothing else, and the result holds one analysis for each of
  them (no list of analyses when the case has no document). And when the query does not
  raise, the documents returned are the documents of the case in the database, each as
  often as it is stored, in an order in which no document has an earlier
  \<open>creation_date\<close> than a document after it.
\<close>

theorem comprehensive_analyzes_first_three:
  "(\<exists>n. list_all2 (analyzes e w)
          (contract_calls w (snd (comprehensive_case_analysis e lawyer_id case_id w)))
          (take n (filter is_contract_document (take 3 (documents_of e case_id w)))))
   \<and> (fst (comprehensive_case_analysis e lawyer_id case_id w) = Inr res \<longrightarrow>
        list_all2 (analyzes e w)
          (contract_calls w (snd (comprehensive_case_analysis e lawyer_id case_id w)))
          (filter is_contract_document (take 3 (documents_of e case_id w)))
      \<and> (\<exists>d1 d2. agent_calls (snd (comprehensive_case_analysis e lawyer_id case_id w))
            = agent_calls w @ (ResearchPrecedents, d1) # (AnalyzeCaseStrategy, d2)
                # contract_calls w (snd (comprehensive_case_analysis e lawyer_id case_id w)))
      \<and> (documents_of e case_id w = [] \<longrightarrow> document_analyses res = None)
      \<and> (documents_of e case_id w \<noteq> [] \<longrightarrow>
            (\<exists>analyses. document_analyses res = Some analyses
               \<and> length analyses
                   = length (filter is_contract_document (take 3 (documents_of e case_id w))))))
   \<and> (sql_error e (Select ''legal_documents'' (PInt case_id)) = None \<longrightarrow>
        descending ''creation_date'' (documents_of e case_id w)
      \<and> mset (documents_of e case_id w)
          = mset (filter (\<lambda>r. map_of r ''case_id'' = Some (PInt case_id)) (legal_documents (db w))))"
proof (intro conjI impI)
  show "\<exists>n. list_all2 (analyzes e w)
          (contract_calls w (snd (comprehensive_case_analysis e lawyer_id case_id w)))
          (take n (filter is_contract_document (take 3 (documents_of e case_id w))))"
    by (rule comprehensive_prefix)
next
  assume "sql_error e (Select ''legal_documents'' (PInt case_id)) = None"
  from documents_of_sorted [OF this]
  show "descending ''creation_date'' (documents_of e case_id w)"
    and "mset (documents_of e case_id w)
          = mset (filter (\<lambda>r. map_of r ''case_id'' = Some (PInt case_id)) (legal_documents (db w)))"
    by simp_all
next
  assume ok: "fst (comprehensive_case_analysis e lawyer_id case_id w) = Inr res"
  from comprehensive_success [OF ok] obtain docs d1 d2 calls where
    dl: "get_case_documents e case_id w = Inr docs"
    and cs: "agent_calls (snd (comprehensive_case_analysis e lawyer_id case_id w))
             = agent_calls w @ (ResearchPrecedents, d1) # (AnalyzeCaseStrategy, d2) # calls"
    and all: "list_all2 (analyzes e w) calls (filter is_contract_document (take 3 docs))"
    and e1: "docs = [] \<longrightarrow> document_analyses res = None"
    and e2: "docs \<noteq> [] \<longrightarrow>
              (\<exists>analyses. document_analyses res = Some analyses
                 \<and> length analyses = length (filter is_contract_document (take 3 docs)))"
    by blast
  note d = documents_of_eq(1) [OF dl]
  from contract_calls_append [OF cs] analyzes_filter [OF all]
  have cc: "contract_calls w (snd (comprehensive_case_analysis e lawyer_id case_id w)) = calls"
    by simp
  show "list_all2 (analyzes e w)
          (contract_calls w (snd (comprehensive_case_analysis e lawyer_id case_id w)))
          (filter is_contract_document (take 3 (documents_of e case_id w)))"
    using all cc d by simp
  show "\<exists>d1 d2. agent_calls (snd (comprehensive_case_analysis e lawyer_id case_id w))
            = agent_calls w @ (ResearchPrecedents, d1) # (AnalyzeCaseStrategy, d2)
                # contract_calls w (snd (comprehensive_case_analysis e lawyer_id case_id w))"
    using cs cc by blast
  show "document_analyses res = None" if "documents_of e case_id w = []"
    using that e1 d by simp
  show "\<exists>analyses. document_analyses res = Some analyses
               \<and> length analyses
                   = length (filter is_contract_document (take 3 (documents_of e case_id w)))"
    if "documents_of e case_id w \<noteq> []"
    using that e2 d by simp
qed


section \<open>Orchestrator: the second example\<close>

lemma example_documents_2_sorted:
  "order_by_desc ''creation_date'' example_documents_2
     = [titled_document 5 ''memo'' ''Summary'' ''2024-03-05'',
        titled_document 4 ''contract'' ''Supply'' ''2024-03-04'',
        titled_document 3 ''agreement'' ''Settlement'' ''2024-03-03'',
        titled_document 2 ''memo'' ''Note'' ''2024-03-02'',
        titled_document 1 ''contract'' ''Lease'' ''2024-03-01'']"
  by (simp add: order_by_desc_def example_documents_2_def titled_document_def row_get_def)

lemma example_case_documents_2:
  assumes "sql_error e = (\<lambda>s. None)" and "legal_documents (db w) = example_documents_2"
  shows "get_case_documents e 1 w
     = Inr [titled_document 5 ''memo'' ''Summary'' ''2024-03-05'',
            titled_document 4 ''contract'' ''Supply'' ''2024-03-04'',
            titled_document 3 ''agreement'' ''Settlement'' ''2024-03-03'',
            titled_document 2 ''memo'' ''Note'' ''2024-03-02'',
            titled_document 1 ''contract'' ''Lease'' ''2024-03-01'']"
proof -
  have "filter (\<lambda>r. map_of r ''case_id'' = Some (PInt 1)) example_documents_2 = example_documents_2"
    by (simp add: example_documents_2_def titled_document_def)
  with assms show ?thesis
    by (simp add: get_case_documents_def select_where_def example_documents_2_sorted)
qed

lemma example_documents_of_2:
  assumes "sql_error e = (\<lambda>s. None)"
  shows "documents_of e 1 example_world_2
     = [titled_document 5 ''memo'' ''Summary'' ''2024-03-05'',
        titled_document 4 ''contract'' ''Supply'' ''2024-03-04'',
        titled_document 3 ''agreement'' ''Settlement'' ''2024-03-03'',
        titled_document 2 ''memo'' ''Note'' ''2024-03-02'',
        titled_document 1 ''contract'' ''Lease'' ''2024-03-01'']"
  using assms by (simp add: documents_of_def example_case_documents_2 example_world_2_def)

lemma titled_document_simps:
  "is_contract_document (titled_document i ''contract'' t date)"
  "is_contract_document (titled_document i ''agreement'' t date)"
  "\<not> is_contract_document (titled_document i ''memo'' t date)"
  "row_get (titled_document i ty t date) ''id'' = PInt i"
  "row_get (titled_document i ty t date) ''title'' = PStr t"
  "row_get (titled_document i ty t date) ''document_type'' = PStr ty"
  "row_get (titled_document i ty t date) ''document_content'' = PStr ''text of the exhibit''"
  by (simp_all add: is_contract_document_def titled_document_def row_get_def)

lemma example_lookups:
  assumes "sql_error e = (\<lambda>s. None)"
  shows "lawyers (db w) = lawyers example_db
          \<Longrightarrow> get_lawyer_by_id e 1 w = Inr (Some (hd (lawyers example_db)))"
    and "cases (db w) = cases example_db
          \<Longrightarrow> get_case_by_id e (PInt 1) w = Inr (Some (hd (cases example_db)))"
    and "legal_documents (db w) = example_documents_2
          \<Longrightarrow> get_document_by_id e (PInt 4) w
                = Inr (Some (titled_document 4 ''contract'' ''Supply'' ''2024-03-04''))"
    and "legal_documents (db w) = example_documents_2
          \<Longrightarrow> get_document_by_id e (PInt 3) w
                = Inr (Some (titled_document 3 ''agreement'' ''Settlement'' ''2024-03-03''))"
    and "row_get (hd (cases example_db)) ''key_issues'' = PStr ''breach of contract''"
  using assms
  by (simp_all add: get_lawyer_by_id_def get_case_by_id_def get_document_by_id_def select_where_def
      first_row_def example_db_def example_documents_2_def titled_document_def row_get_def)

lemmas comprehensive_eval =
  comprehensive_case_analysis_def research_case_law_def develop_litigation_strategy_def
  analyze_contract_def contract_data_of_def analysis_row_def
  research_case_facts_def research_kwargs_of_def research_data_of_def dict_get_def
  call_agent_def add_research_session_def save_analysis_result_def execute_insert_def
  contract_calls_def Let_def titled_document_simps

lemma example_comprehensive_2:
  "fst (comprehensive_case_analysis env_ok 1 1 example_world_2)
       = Inr \<lparr>case_law_research = ''generated text'', litigation_strategy = ''generated text'',
              document_analyses = Some [''generated text'', ''generated text'']\<rparr>"
  "contract_calls example_world_2 (snd (comprehensive_case_analysis env_ok 1 1 example_world_2))
       = [(AnalyzeContract,
           [(''contract_name'', PStr ''Supply''), (''contract_text'', PStr ''text of the exhibit''),
            (''contract_type'', PStr ''contract'')]),
          (AnalyzeContract,
           [(''contract_name'', PStr ''Settlement''), (''contract_text'', PStr ''text of the exhibit''),
            (''contract_type'', PStr ''agreement'')])]"
proof -
  have e: "sql_error env_ok = (\<lambda>s. None)" "agent env_ok n m d = Inr ''generated text''" for n m d
    by (simp_all add: env_ok_def)
  note defs = comprehensive_eval example_world_2_def e example_case_documents_2 [OF e(1)]
    example_lookups [OF e(1)]
  show "fst (comprehensive_case_analysis env_ok 1 1 example_world_2)
       = Inr \<lparr>case_law_research = ''generated text'', litigation_strategy = ''generated text'',
              document_analyses = Some [''generated text'', ''generated text'']\<rparr>"
    by (simp add: defs)
  show "contract_calls example_world_2 (snd (comprehensive_case_analysis env_ok 1 1 example_world_2))
       = [(AnalyzeContract,
           [(''contract_name'', PStr ''Supply''), (''contract_text'', PStr ''text of the exhibit''),
            (''contract_type'', PStr ''contract'')]),
          (AnalyzeContract,
           [(''contract_name'', PStr ''Settlement''), (''contract_text'', PStr ''text of the exhibit''),
            (''contract_type'', PStr ''agreement'')])]"
    by (simp add: defs)
qed

lemma example_comprehensive_outage:
  "fst (comprehensive_case_analysis env_outage 1 1 example_world_2)
       = Inl (Raise GenerationError ''model unavailable'')"
  "contract_calls example_world_2 (snd (comprehensive_case_analysis env_outage 1 1 example_world_2))
       = [(AnalyzeContract,
           [(''contract_name'', PStr ''Supply''), (''contract_text'', PStr ''text of the exhibit''),
            (''contract_type'', PStr ''contract'')])]"
proof -
  have e: "sql_error env_outage = (\<lambda>s. None)"
    "agent env_outage n m d = (if n = 2 then Inl (Raise GenerationError ''model unavailable'')
                               else Inr ''generated text'')" for n m d
    by (simp_all add: env_outage_def)
  note defs = comprehensive_eval example_world_2_def e example_case_documents_2 [OF e(1)]
    example_lookups [OF e(1)]
  show "fst (comprehensive_case_analysis env_outage 1 1 example_world_2)
       = Inl (Raise GenerationError ''model unavailable'')"
    by (simp add: defs)
  show "contract_calls example_world_2 (snd (comprehensive_case_analysis env_outage 1 1 example_world_2))
       = [(AnalyzeContract,
           [(''contract_name'', PStr ''Supply''), (''contract_text'', PStr ''text of the exhibit''),
            (''contract_type'', PStr ''contract'')])]"
    by (simp add: defs)
qed

lemma example_comprehensive_no_documents:
  "documents_of env_ok 1 (example_world\<lparr>db := example_db\<lparr>legal_documents := []\<rparr>\<rparr>) = []"
  "fst (comprehensive_case_analysis env_ok 1 1 (example_world\<lparr>db := example_db\<lparr>legal_documents := []\<rparr>\<rparr>))
       = Inr \<lparr>case_law_research = ''generated text'', litigation_strategy = ''generated text'',
              document_analyses = None\<rparr>"
proof -
  have e: "sql_error env_ok = (\<lambda>s. None)" "agent env_ok n m d = Inr ''generated text''" for n m d
    by (simp_all add: env_ok_def)
  have docs: "get_case_documents env_ok 1 w = Inr []" if "legal_documents (db w) = []" for w
    using that by (simp add: get_case_documents_def select_where_def e order_by_desc_def)
  note defs = comprehensive_eval example_world_def e docs example_lookups [OF e(1)]
  show "documents_of env_ok 1 (example_world\<lparr>db := example_db\<lparr>legal_documents := []\<rparr>\<rparr>) = []"
    by (simp add: documents_of_def docs)
  show "fst (comprehensive_case_analysis env_ok 1 1 (example_world\<lparr>db := example_db\<lparr>legal_documents := []\<rparr>\<rparr>))
       = Inr \<lparr>case_law_research = ''generated text'', litigation_strategy = ''generated text'',
              document_analyses = None\<rparr>"
    by (simp add: defs)
qed

text \<open>
  A run of the example: the case has five documents, stored oldest first. They are
  returned newest first, the first three are the memo Summary, the contract Supply and
  the agreement Settlement, and the contract agent is called for Supply and then for
  Settlement; the older contract Lease is not analysed. When the third generation call
  raises, the operation raises, and the one contract call made is the one for Supply.
  With no document in the database the result has no document analyses.
\<close>

theorem comprehensive_analyzes_first_three_witness:
  "documents_of env_ok 1 example_world_2
     = [titled_document 5 ''memo'' ''Summary'' ''2024-03-05'',
        titled_document 4 ''contract'' ''Supply'' ''2024-03-04'',
        titled_document 3 ''agreement'' ''Settlement'' ''2024-03-03'',
        titled_document 2 ''memo'' ''Note'' ''2024-03-02'',
        titled_document 1 ''contract'' ''Lease'' ''2024-03-01'']
   \<and> sql_error env_ok (Select ''legal_documents'' (PInt 1)) = None
   \<and> descending ''creation_date''
       [titled_document 5 ''memo'' ''Summary'' ''2024-03-05'',
        titled_document 4 ''contract'' ''Supply'' ''2024-03-04'',
        titled_document 3 ''agreement'' ''Settlement'' ''2024-03-03'',
        titled_document 2 ''memo'' ''Note'' ''2024-03-02'',
        titled_document 1 ''contract'' ''Lease'' ''2024-03-01'']
   \<and> fst (comprehensive_case_analysis env_ok 1 1 example_world_2)
       = Inr \<lparr>case_law_research = ''generated text'', litigation_strategy = ''generated text'',
              document_analyses = Some [''generated text'', ''generated text'']\<rparr>
   \<and> contract_calls example_world_2 (snd (comprehensive_case_analysis env_ok 1 1 example_world_2))
       = [(AnalyzeContract,
           [(''contract_name'', PStr ''Supply''), (''contract_text'', PStr ''text of the exhibit''),
            (''contract_type'', PStr ''contract'')]),
          (AnalyzeContract,
           [(''contract_name'', PStr ''Settlement''), (''contract_text'', PStr ''text of the exhibit''),
            (''contract_type'', PStr ''agreement'')])]
   \<and> list_all2 (analyzes env_ok example_world_2)
        (contract_calls example_world_2 (snd (comprehensive_case_analysis env_ok 1 1 example_world_2)))
        [titled_document 4 ''contract'' ''Supply'' ''2024-03-04'',
         titled_document 3 ''agreement'' ''Settlement'' ''2024-03-03'']
   \<and> fst (comprehensive_case_analysis env_outage 1 1 example_world_2)
       = Inl (Raise GenerationError ''model unavailable'')
   \<and> contract_calls example_world_2 (snd (comprehensive_case_analysis env_outage 1 1 example_world_2))
       = [(AnalyzeContract,
           [(''contract_name'', PStr ''Supply''), (''contract_text'', PStr ''text of the exhibit''),
            (''contract_type'', PStr ''contract'')])]
   \<and> list_all2 (analyzes env_outage example_world_2)
        (contract_calls example_world_2 (snd (comprehensive_case_analysis env_outage 1 1 example_world_2)))
        [titled_document 4 ''contract'' ''Supply'' ''2024-03-04'']
   \<and> documents_of env_ok 1 (example_world\<lparr>db := example_db\<lparr>legal_documents := []\<rparr>\<rparr>) = []
   \<and> (\<exists>res. fst (comprehensive_case_analysis env_ok 1 1
                    (example_world\<lparr>db := example_db\<lparr>legal_documents := []\<rparr>\<rparr>)) = Inr res
            \<and> document_analyses res = None)"
proof -
  have ok: "sql_error env_ok = (\<lambda>s. None)" and out: "sql_error env_outage = (\<lambda>s. None)"
    by (simp_all add: env_ok_def env_outage_def)
  note docs = example_documents_of_2 [OF ok]
  have sel: "sql_error env_ok (Select ''legal_documents'' (PInt 1)) = None"
    by (simp add: ok)
  have desc: "descending ''creation_date''
       [titled_document 5 ''memo'' ''Summary'' ''2024-03-05'',
        titled_document 4 ''contract'' ''Supply'' ''2024-03-04'',
        titled_document 3 ''agreement'' ''Settlement'' ''2024-03-03'',
        titled_document 2 ''memo'' ''Note'' ''2024-03-02'',
        titled_document 1 ''contract'' ''Lease'' ''2024-03-01'']"
    using comprehensive_analyzes_first_three [of env_ok example_world_2 1 1 res, THEN conjunct2,
        THEN conjunct2] sel
    unfolding docs by blast
  have first: "filter is_contract_document (take 3 (documents_of e 1 example_world_2))
       = [titled_document 4 ''contract'' ''Supply'' ''2024-03-04'',
          titled_document 3 ''agreement'' ''Settlement'' ''2024-03-03'']"
    if "sql_error e = (\<lambda>s. None)" for e
    by (simp add: example_documents_of_2 [OF that] titled_document_simps)
  have all: "list_all2 (analyzes env_ok example_world_2)
        (contract_calls example_world_2 (snd (comprehensive_case_analysis env_ok 1 1 example_world_2)))
        [titled_document 4 ''contract'' ''Supply'' ''2024-03-04'',
         titled_document 3 ''agreement'' ''Settlement'' ''2024-03-03'']"
    using comprehensive_analyzes_first_three [of env_ok example_world_2 1 1
        "\<lparr>case_law_research = ''generated text'', litigation_strategy = ''generated text'',
          document_analyses = Some [''generated text'', ''generated text'']\<rparr>",
        THEN conjunct2, THEN conjunct1] example_comprehensive_2(1)
    unfolding first [OF ok] by blast
  from comprehensive_analyzes_first_three [of env_outage example_world_2 1 1 res, THEN conjunct1]
  obtain n where n: "list_all2 (analyzes env_outage example_world_2)
        (contract_calls example_world_2 (snd (comprehensive_case_analysis env_outage 1 1 example_world_2)))
        (take n [titled_document 4 ''contract'' ''Supply'' ''2024-03-04'',
                 titled_document 3 ''agreement'' ''Settlement'' ''2024-03-03''])"
    unfolding first [OF out] by blast
  from list_all2_lengthD [OF this] have "n = 1"
    by (simp add: example_comprehensive_outage(2))
  with n have part: "list_all2 (analyzes env_outage example_world_2)
        (contract_calls example_world_2 (snd (comprehensive_case_analysis env_outage 1 1 example_world_2)))
        [titled_document 4 ''contract'' ''Supply'' ''2024-03-04'']"
    by simp
  have none: "\<exists>res. fst (comprehensive_case_analysis env_ok 1 1
                    (example_world\<lparr>db := example_db\<lparr>legal_documents := []\<rparr>\<rparr>)) = Inr res
            \<and> document_analyses res = None"
    using comprehensive_analyzes_first_three [of env_ok
        "example_world\<lparr>db := example_db\<lparr>legal_documents := []\<rparr>\<rparr>" 1 1
        "\<lparr>case_law_research = ''generated text'', litigation_strategy = ''generated text'',
          document_analyses = None\<rparr>", THEN conjunct2, THEN conjunct1]
      example_comprehensive_no_documents
    by blast
  show ?thesis
    using docs sel desc example_comprehensive_2 all example_comprehensive_outage part
      example_comprehensive_no_documents(1) none
    by blast
qed

end
